theory Spec2Isabelle
  imports Main "HOL-Library.AList"
begin

section \<open>The builder of LaTeX Workshop (src/components/builder.ts)\<close>

text \<open>
  The class \<^verbatim>\<open>Builder\<close> is embedded function by function. A JavaScript string is a
  \<open>string\<close> whose characters stand for the UTF-16 code units below 256; \<^verbatim>\<open>undefined\<close>
  is \<open>None\<close>. Everything the builder tells its collaborators (logger, status bar,
  cleaner, viewer, \<^verbatim>\<open>cross-spawn\<close>, the release callback of the build mutex) is an
  \<open>event\<close> appended to the \<open>trace\<close> of the builder state, in the order of the calls.
  A log text that interpolates a process id, an exit code, captured output or a JSON dump
  is shortened to its constant part; the other texts are exact.
\<close>

subsection \<open>Data\<close>

type_synonym ProcessEnv = "(string \<times> string) list"

text \<open>\<^verbatim>\<open>interface StepCommand { name, command, args?, env? }\<close>\<close>

record StepCommand =
  name :: string
  command :: string
  args :: "string list option"
  env :: "ProcessEnv option"

text \<open>An element of \<^verbatim>\<open>Recipe.tools\<close>, of type \<^verbatim>\<open>string | StepCommand\<close>.\<close>

datatype tool = ToolName string | InlineTool StepCommand

text \<open>\<^verbatim>\<open>interface Recipe { name, tools }\<close>\<close>

record Recipe =
  recipe_name :: string
  recipe_tools :: "tool list"

text \<open>The keys of the \<^verbatim>\<open>latex-workshop\<close> configuration that the builder reads.\<close>

record Configuration =
  latex_build_forceRecipeUsage :: bool
  latex_magic_args :: "string list"
  latex_magic_bib_args :: "string list"
  latex_recipes :: "Recipe list"
  latex_recipe_default :: string
  latex_tools :: "StepCommand list"
  docker_enabled :: bool
  latex_option_maxPrintLine_enabled :: bool
  latex_autoBuild_cleanAndRetry_enabled :: bool
  latex_autoClean_run :: string
  latex_build_clearLog_everyRecipeStep_enabled :: bool
  view_pdf_viewer :: string
  synctex_afterBuild_enabled :: bool

text \<open>
  What the builder reads from its host: the file system, the platform, the process
  environment, and the helpers and collaborators that are not part of builder.ts.
  File-system calls are taken to succeed, except the creation of the output
  directories, whose failure is the flag \<open>outDirSetupFails\<close>. The collaborators
  return normally, except \<^verbatim>\<open>viewer.refreshExistingViewer\<close>, which throws when
  \<open>postBuildFails\<close> is set. \<open>replaceArgumentPlaceholders\<close> has the directory
  \<^verbatim>\<open>tmpDir\<close> of the builder built in. The cleaner is taken to finish, and every
  spawned process to end.
\<close>

record Host =
  readFileSync :: "string \<Rightarrow> string"
  dirname :: "string \<Rightarrow> string"
  processEnv :: ProcessEnv
  win32 :: bool
  scriptLatexmkBat :: string
  scriptLatexmk :: string
  replaceArgumentPlaceholders :: "string \<Rightarrow> string \<Rightarrow> string"
  getOutDir :: "string \<Rightarrow> string"
  pathIsAbsolute :: "string \<Rightarrow> bool"
  pathResolve :: "string \<Rightarrow> string \<Rightarrow> string"
  outDirSetupFails :: bool
  localRootFile :: "string option"
  rootDir :: "string option"
  workspaceFolder :: "string option"
  isLaTeXmkSkipped :: bool
  postBuildFails :: bool

text \<open>The two forms of \<^verbatim>\<open>cs.spawn\<close> in \<^verbatim>\<open>buildStep\<close>: through a shell with one command
  line and no argument vector, or directly with an argument vector. Both carry the
  working directory and the environment.\<close>

datatype spawn_call =
    Shell string string ProcessEnv
  | Argv string "string list option" string ProcessEnv

datatype event =
    Log string
  | ShowError string
  | Status string string
  | ClearCompilerMessage
  | Spawn spawn_call
  | ParseCompilerLog
  | CleanerClean
  | RefreshViewer
  | SyncTeX
  | ReleaseBuildMutex
  | UnhandledRejection

datatype exn = TypeError | SetupError | ViewerError

text \<open>The mutable fields of the \<^verbatim>\<open>Builder\<close> instance, the number of processes spawned so
  far and the trace.\<close>

record Builder =
  previouslyUsedRecipe :: "Recipe option"
  previousLanguageId :: "string option"
  disableCleanAndRetry :: bool
  isMiktex :: bool
  currentProcess :: "nat option"
  spawned :: nat
  trace :: "event list"

definition emit :: "event list \<Rightarrow> Builder \<Rightarrow> Builder" where
  "emit es b = b\<lparr>trace := trace b @ es\<rparr>"

definition maxPrintLine :: string where
  "maxPrintLine = ''10000''"

definition texMagicProgramName :: string where
  "texMagicProgramName = ''TeXMagicProgram''"

definition bibMagicProgramName :: string where
  "bibMagicProgramName = ''BibMagicProgram''"

text \<open>JavaScript truthiness of a \<^verbatim>\<open>string | undefined\<close>.\<close>

definition truthy :: "string option \<Rightarrow> bool" where
  "truthy x = (case x of None \<Rightarrow> False | Some s \<Rightarrow> s \<noteq> [])"

text \<open>\<^verbatim>\<open>`${x}`\<close> for a \<^verbatim>\<open>string | undefined\<close>.\<close>

definition interpolate :: "string option \<Rightarrow> string" where
  "interpolate x = (case x of None \<Rightarrow> ''undefined'' | Some s \<Rightarrow> s)"

text \<open>\<^verbatim>\<open>xs[0]\<close>, which is \<^verbatim>\<open>undefined\<close> on an empty array.\<close>

definition first :: "'a list \<Rightarrow> 'a option" where
  "first xs = (case xs of [] \<Rightarrow> None | x # _ \<Rightarrow> Some x)"

subsection \<open>The regular expressions of the magic comments\<close>

text \<open>
  The four expressions of \<^verbatim>\<open>findProgramMagic\<close> are sequences of the items below, all with
  the flag \<^verbatim>\<open>m\<close>. \<open>rx_match\<close> is the backtracking matcher of JavaScript on such a
  sequence: a starred item first tries one more character and falls back to the rest of
  the pattern. Its result is the text of the one capturing group.
\<close>

datatype rx_item =
    Bol
  | Eol
  | Str string
  | OneOf string
  | Space
  | Spaces
  | Opt string
  | Dot
  | CapNonSpaces
  | CapRest

definition is_line_terminator :: "char \<Rightarrow> bool" where
  "is_line_terminator c = ((of_char c :: nat) \<in> {10, 13})"

definition is_space :: "char \<Rightarrow> bool" where
  "is_space c = ((of_char c :: nat) \<in> {9, 10, 11, 12, 13, 32, 160})"

fun strip_prefix :: "string \<Rightarrow> string \<Rightarrow> string option" where
  "strip_prefix [] s = Some s"
| "strip_prefix (p # ps) [] = None"
| "strip_prefix (p # ps) (c # s) = (if p = c then strip_prefix ps s else None)"

fun rx_match :: "rx_item list \<Rightarrow> char option \<Rightarrow> string \<Rightarrow> string \<Rightarrow> string option" where
  "rx_match [] prev s cap = Some cap"
| "rx_match (Bol # r) prev s cap =
     (case prev of None \<Rightarrow> rx_match r prev s cap
      | Some p \<Rightarrow> if is_line_terminator p then rx_match r prev s cap else None)"
| "rx_match (Eol # r) prev s cap =
     (case s of [] \<Rightarrow> rx_match r prev s cap
      | c # _ \<Rightarrow> if is_line_terminator c then rx_match r prev s cap else None)"
| "rx_match (Str lit # r) prev s cap =
     (case strip_prefix lit s of None \<Rightarrow> None
      | Some s' \<Rightarrow> rx_match r (if lit = [] then prev else Some (last lit)) s' cap)"
| "rx_match (OneOf cs # r) prev [] cap = None"
| "rx_match (OneOf cs # r) prev (c # s) cap =
     (if c \<in> set cs then rx_match r (Some c) s cap else None)"
| "rx_match (Space # r) prev [] cap = None"
| "rx_match (Space # r) prev (c # s) cap =
     (if is_space c then rx_match r (Some c) s cap else None)"
| "rx_match (Dot # r) prev [] cap = None"
| "rx_match (Dot # r) prev (c # s) cap =
     (if \<not> is_line_terminator c then rx_match r (Some c) s cap else None)"
| "rx_match (Spaces # r) prev [] cap = rx_match r prev [] cap"
| "rx_match (Spaces # r) prev (c # s) cap =
     (if is_space c
      then (case rx_match (Spaces # r) (Some c) s cap of
              Some m \<Rightarrow> Some m
            | None \<Rightarrow> rx_match r prev (c # s) cap)
      else rx_match r prev (c # s) cap)"
| "rx_match (Opt lit # r) prev s cap =
     (case strip_prefix lit s of None \<Rightarrow> rx_match r prev s cap
      | Some s' \<Rightarrow>
          (case rx_match r (if lit = [] then prev else Some (last lit)) s' cap of
             Some m \<Rightarrow> Some m
           | None \<Rightarrow> rx_match r prev s cap))"
| "rx_match (CapNonSpaces # r) prev [] cap = rx_match r prev [] cap"
| "rx_match (CapNonSpaces # r) prev (c # s) cap =
     (if \<not> is_space c
      then (case rx_match (CapNonSpaces # r) (Some c) s (cap @ [c]) of
              Some m \<Rightarrow> Some m
            | None \<Rightarrow> rx_match r prev (c # s) cap)
      else rx_match r prev (c # s) cap)"
| "rx_match (CapRest # r) prev [] cap = rx_match r prev [] cap"
| "rx_match (CapRest # r) prev (c # s) cap =
     (if \<not> is_line_terminator c
      then (case rx_match (CapRest # r) (Some c) s (cap @ [c]) of
              Some m \<Rightarrow> Some m
            | None \<Rightarrow> rx_match r prev (c # s) cap)
      else rx_match r prev (c # s) cap)"

text \<open>\<^verbatim>\<open>content.match(regex)\<close> without the flag \<^verbatim>\<open>g\<close>: the leftmost match, tried from
  every start position in turn; the result is group 1.\<close>

fun rx_search :: "rx_item list \<Rightarrow> char option \<Rightarrow> string \<Rightarrow> string option" where
  "rx_search rx prev [] = rx_match rx prev [] []"
| "rx_search rx prev (c # s) =
     (case rx_match rx prev (c # s) [] of
        Some m \<Rightarrow> Some m
      | None \<Rightarrow> rx_search rx (Some c) s)"

definition js_match :: "string \<Rightarrow> rx_item list \<Rightarrow> string option" where
  "js_match content rx = rx_search rx None content"

definition directive :: "string \<Rightarrow> string \<Rightarrow> rx_item \<Rightarrow> rx_item list" where
  "directive family keyword capture =
     [Bol, Str ''%'', Spaces, Str ''!'', Spaces] @ (if family = ''TeX''
        then [Str ''T'', OneOf ''Ee'', Str ''X''] else [Str family]) @
     [Space, Opt ''TS-'', Str keyword, Spaces, Str ''='', Spaces, capture, Eol]"

definition regexTex :: "rx_item list" where
  "regexTex = directive ''TeX'' ''program'' CapNonSpaces"

definition regexBib :: "rx_item list" where
  "regexBib = directive ''BIB'' ''program'' CapNonSpaces"

definition regexTexOptions :: "rx_item list" where
  "regexTexOptions = directive ''TeX'' ''options'' CapRest"

definition regexBibOptions :: "rx_item list" where
  "regexBibOptions = directive ''BIB'' ''options'' CapRest"

subsection \<open>findProgramMagic (lines 511-550)\<close>

text \<open>Lines 524-527 and 531: the step of a directive, with the options as its one
  argument when the options directive is there.\<close>

definition magicStep :: "string \<Rightarrow> string \<Rightarrow> string option \<Rightarrow> StepCommand" where
  "magicStep magicName prog opts =
     \<lparr>name = magicName, command = prog, args = map_option (\<lambda>opt. [opt]) opts, env = None\<rparr>"

definition magicCommand ::
  "string \<Rightarrow> string \<Rightarrow> string \<Rightarrow> rx_item list \<Rightarrow> rx_item list
    \<Rightarrow> event list \<times> StepCommand option" where
  "magicCommand family magicName content rx rxOptions =
     (case js_match content rx of
        None \<Rightarrow> ([], None)
      | Some prog \<Rightarrow>
          (let opts = js_match content rxOptions
           in (Log (''Found '' @ family @ '' program by magic comment: '' @ prog)
               # (case opts of None \<Rightarrow> []
                  | Some opt \<Rightarrow> [Log (''Found '' @ family @ '' options by magic comment: '' @ opt)]),
               Some (magicStep magicName prog opts))))"

definition findProgramMagic ::
  "Host \<Rightarrow> string \<Rightarrow> event list \<times> StepCommand option \<times> StepCommand option" where
  "findProgramMagic h rootFile =
     (let content = readFileSync h rootFile;
          (texLog, texCommand) =
             magicCommand ''TeX'' texMagicProgramName content regexTex regexTexOptions;
          (bibLog, bibCommand) =
             magicCommand ''BIB'' bibMagicProgramName content regexBib regexBibOptions
      in (texLog @ bibLog, texCommand, bibCommand))"

subsection \<open>createSteps (lines 378-509)\<close>

text \<open>Lines 384-387 and 389-392: a directive without options gets the configured
  default arguments and the name with the suffix.\<close>

definition withDefaultArgs :: "string \<Rightarrow> string list \<Rightarrow> StepCommand \<Rightarrow> StepCommand" where
  "withDefaultArgs magicName defaults step =
     (if args step = None
      then step\<lparr>name := magicName @ ''WithArgs'', args := Some defaults\<rparr>
      else step)"

text \<open>Lines 384-396.\<close>

definition magicSteps ::
  "Configuration \<Rightarrow> StepCommand \<Rightarrow> StepCommand option \<Rightarrow> StepCommand list" where
  "magicSteps cfg magicTex magicBib =
     (let tex = withDefaultArgs texMagicProgramName (latex_magic_args cfg) magicTex
      in case magicBib of
           Some bib0 \<Rightarrow>
             (let bib = withDefaultArgs bibMagicProgramName (latex_magic_bib_args cfg) bib0
              in [tex, bib, tex, tex])
         | None \<Rightarrow> [tex])"

text \<open>\<^verbatim>\<open>String.prototype.toLowerCase\<close> on code units below 256.\<close>

definition toLowerCase :: "string \<Rightarrow> string" where
  "toLowerCase s =
     map (\<lambda>c. let n = (of_char c :: nat)
               in if (65 \<le> n \<and> n \<le> 90) \<or> (192 \<le> n \<and> n \<le> 222 \<and> n \<noteq> 215)
                  then char_of (n + 32) else c) s"

text \<open>\<^verbatim>\<open>s.match('a|b|c')\<close> used as a condition: some alternative matches somewhere.\<close>

definition matchesAny :: "string \<Rightarrow> rx_item list list \<Rightarrow> bool" where
  "matchesAny s alternatives = (\<exists>rx \<in> set alternatives. js_match s rx \<noteq> None)"

text \<open>Lines 426-431.\<close>

definition languageCandidates :: "string \<Rightarrow> Recipe list \<Rightarrow> Recipe list" where
  "languageCandidates languageId recipes =
     (if languageId = ''rsweave''
      then filter (\<lambda>candidate. matchesAny (toLowerCase (recipe_name candidate))
                     [[Str ''rnw''], [Str ''rsweave'']]) recipes
      else if languageId = ''jlweave''
      then filter (\<lambda>candidate. matchesAny (toLowerCase (recipe_name candidate))
                     [[Str ''jnw''], [Str ''jlweave''], [Str ''weave'', Dot, Str ''jl'']]) recipes
      else recipes)"

text \<open>Lines 413-420: the lookup by name.\<close>

definition recipeByName :: "Recipe list \<Rightarrow> string option \<Rightarrow> Builder \<Rightarrow> Builder \<times> Recipe option" where
  "recipeByName recipes recipeName b =
     (if truthy recipeName
      then (let candidates = filter (\<lambda>candidate. Some (recipe_name candidate) = recipeName) recipes;
                b' = (if length candidates < 1
                      then emit [Log (''Failed to resolve build recipe: '' @ interpolate recipeName),
                                 ShowError (''Failed to resolve build recipe: '' @ interpolate recipeName)] b
                      else b)
            in (b', first candidates))
      else (b, None))"

text \<open>Lines 421-438: the fallback when the lookup by name gave nothing.\<close>

definition recipeFallback ::
  "Configuration \<Rightarrow> string \<Rightarrow> string option \<Rightarrow> Builder \<Rightarrow> Builder \<times> Recipe option" where
  "recipeFallback cfg languageId recipeName b =
     (let defaultRecipeName = latex_recipe_default cfg;
          recipe = (if defaultRecipeName = ''lastUsed'' then previouslyUsedRecipe b else None)
      in if defaultRecipeName = ''first'' \<or> recipe = None
         then (let candidates = languageCandidates languageId (latex_recipes cfg);
                   b' = (if length candidates < 1
                         then emit [Log (''Failed to resolve build recipe: '' @ interpolate recipeName),
                                    ShowError (''Failed to resolve build recipe: '' @ interpolate recipeName)] b
                         else b)
               in (b', first candidates))
         else (b, recipe))"

text \<open>Lines 410-412: the name that is looked up.\<close>

definition requestedName :: "Configuration \<Rightarrow> string option \<Rightarrow> string option" where
  "requestedName cfg recipeName =
     (if \<not> truthy recipeName \<and> latex_recipe_default cfg \<notin> set [''first'', ''lastUsed'']
      then Some (latex_recipe_default cfg) else recipeName)"

text \<open>Lines 406-438.\<close>

definition chooseRecipe ::
  "Configuration \<Rightarrow> string \<Rightarrow> string option \<Rightarrow> Builder \<Rightarrow> Builder \<times> Recipe option" where
  "chooseRecipe cfg languageId recipeName0 b0 =
     (let b1 = (if previousLanguageId b0 \<noteq> Some languageId
                then b0\<lparr>previouslyUsedRecipe := None\<rparr> else b0);
          recipeName = requestedName cfg recipeName0
      in case recipeByName (latex_recipes cfg) recipeName b1 of
           (b2, Some recipe) \<Rightarrow> (b2, Some recipe)
         | (b2, None) \<Rightarrow> recipeFallback cfg languageId recipeName b2)"

text \<open>Lines 445-457: a tool named by a string is looked up among the configured tools and
  skipped with a report when it is not there.\<close>

fun expandTools :: "StepCommand list \<Rightarrow> string \<Rightarrow> tool list \<Rightarrow> event list \<times> StepCommand list" where
  "expandTools tools rname [] = ([], [])"
| "expandTools tools rname (InlineTool step # rest) =
     (let (log, steps) = expandTools tools rname rest in (log, step # steps))"
| "expandTools tools rname (ToolName t # rest) =
     (let (log, steps) = expandTools tools rname rest
      in case filter (\<lambda>candidate. name candidate = t) tools of
           [] \<Rightarrow> (Log (''Skipping undefined tool: '' @ t @ '' in '' @ rname)
                  # ShowError (''Skipping undefined tool '' @ [CHR 0x22] @ t @ [CHR 0x22]
                       @ '' in recipe '' @ [CHR 0x22] @ rname @ ''.'' @ [CHR 0x22])
                  # log, steps)
         | candidate # _ \<Rightarrow> (log, candidate # steps))"

text \<open>Lines 465-507, the body of \<^verbatim>\<open>steps.forEach\<close>. The deep copy of line 462 is the
  identity on values.\<close>

definition prepareStep ::
  "Host \<Rightarrow> Configuration \<Rightarrow> bool \<Rightarrow> string \<Rightarrow> StepCommand \<Rightarrow> event list \<times> StepCommand" where
  "prepareStep h cfg miktex rootFile step =
     (let repl = replaceArgumentPlaceholders h rootFile;
          (dockerLog, step1) =
             (if docker_enabled cfg
              then (if command step = ''latexmk''
                    then ([Log ''Use Docker to invoke the command.''],
                          step\<lparr>command := (if win32 h then scriptLatexmkBat h else scriptLatexmk h)\<rparr>)
                    else ([Log (''Will not use Docker to invoke the command: '' @ command step)], step))
              else ([], step));
          step2 = step1\<lparr>args := map_option (map repl) (args step1)\<rparr>;
          step3 = step2\<lparr>env := map_option (map (\<lambda>(v, e). (v, if e \<noteq> [] then repl e else e))) (env step2)\<rparr>;
          step4 =
             (if latex_option_maxPrintLine_enabled cfg
              then (let as = (case args step3 of None \<Rightarrow> [] | Some a \<Rightarrow> a);
                        isLuaLatex = (''-lualatex'' \<in> set as \<or> ''-pdflua'' \<in> set as \<or>
                                      ''-pdflualatex'' \<in> set as \<or> ''--lualatex'' \<in> set as \<or>
                                      ''--pdflua'' \<in> set as \<or> ''--pdflualatex'' \<in> set as)
                    in step3\<lparr>args := Some
                         (if miktex \<and> ((command step3 = ''latexmk'' \<and> \<not> isLuaLatex) \<or>
                                        command step3 = ''pdflatex'')
                          then (''--max-print-line='' @ maxPrintLine) # as else as)\<rparr>)
              else step3)
      in (dockerLog, step4))"

fun prepareSteps ::
  "Host \<Rightarrow> Configuration \<Rightarrow> bool \<Rightarrow> string \<Rightarrow> StepCommand list \<Rightarrow> event list \<times> StepCommand list" where
  "prepareSteps h cfg miktex rootFile [] = ([], [])"
| "prepareSteps h cfg miktex rootFile (step # rest) =
     (let (log, step') = prepareStep h cfg miktex rootFile step;
          (logs, steps') = prepareSteps h cfg miktex rootFile rest
      in (log @ logs, step' # steps'))"

text \<open>Lines 462-508.\<close>

definition finishSteps ::
  "Host \<Rightarrow> Configuration \<Rightarrow> string \<Rightarrow> StepCommand list \<Rightarrow> Builder \<Rightarrow> Builder \<times> StepCommand list option" where
  "finishSteps h cfg rootFile steps b =
     (let (log, steps') = prepareSteps h cfg (isMiktex b) rootFile steps
      in (emit log b, Some steps'))"

text \<open>The condition of line 383 selects the primary directive, if any.\<close>

definition directiveInForce ::
  "Configuration \<Rightarrow> string option \<Rightarrow> StepCommand option \<Rightarrow> StepCommand option" where
  "directiveInForce cfg recipeName magicTex =
     (if recipeName = None \<and> \<not> latex_build_forceRecipeUsage cfg then magicTex else None)"

definition createSteps ::
  "Host \<Rightarrow> Configuration \<Rightarrow> string \<Rightarrow> string \<Rightarrow> string option \<Rightarrow> Builder
    \<Rightarrow> Builder \<times> StepCommand list option" where
  "createSteps h cfg rootFile languageId recipeName b =
     (let (magicLog, magicTex, magicBib) = findProgramMagic h rootFile;
          b0 = emit magicLog b
      in case directiveInForce cfg recipeName magicTex of
           Some tex \<Rightarrow> finishSteps h cfg rootFile (magicSteps cfg tex magicBib) b0
         | None \<Rightarrow>
             if length (latex_recipes cfg) < 1
             then (emit [Log ''No recipes defined.'', ShowError ''No recipes defined.''] b0, None)
             else (case chooseRecipe cfg languageId recipeName b0 of
                     (b1, None) \<Rightarrow> (b1, None)
                   | (b1, Some recipe) \<Rightarrow>
                       (let b2 = b1\<lparr>previouslyUsedRecipe := Some recipe,
                                     previousLanguageId := Some languageId\<rparr>;
                            (toolLog, steps) =
                               expandTools (latex_tools cfg) (recipe_name recipe) (recipe_tools recipe)
                        in finishSteps h cfg rootFile steps (emit toolLog b2))))"

subsection \<open>buildStep (lines 239-354)\<close>

text \<open>What becomes of a spawned process: the event \<^verbatim>\<open>error\<close> with its message, or
  the event \<^verbatim>\<open>exit\<close> with the exit code (\<^verbatim>\<open>null\<close> is \<open>None\<close>) and the signal. The
  outcome of the \<open>n\<close>-th process spawned is \<open>outcome n\<close>; every process ends.\<close>

datatype proc_outcome =
    ProcError string
  | ProcExit "int option" "string option"

fun decimal :: "nat \<Rightarrow> string" where
  "decimal n = (if n < 10 then [char_of (48 + n)] else decimal (n div 10) @ [char_of (48 + n mod 10)])"

declare decimal.simps [simp del]

text \<open>\<^verbatim>\<open>Array.prototype.join\<close>.\<close>

fun join :: "string \<Rightarrow> string list \<Rightarrow> string" where
  "join sep [] = []"
| "join sep [x] = x"
| "join sep (x # y # rest) = x @ sep @ join sep (y # rest)"

text \<open>Lines 231-237. Reading \<^verbatim>\<open>steps[index].name\<close> past the end of the array throws.\<close>

definition progressString :: "string \<Rightarrow> StepCommand list \<Rightarrow> nat \<Rightarrow> exn + string" where
  "progressString recipeName steps index =
     (if length steps < 2 then Inr recipeName
      else if index < length steps
      then Inr (recipeName @ '': '' @ decimal (index + 1) @ ''/'' @ decimal (length steps)
                @ '' ('' @ name (steps ! index) @ '')'')
      else Inl TypeError)"

text \<open>Lines 252-257: the environment before line 261.\<close>

definition inheritedEnv :: "Host \<Rightarrow> StepCommand \<Rightarrow> ProcessEnv" where
  "inheritedEnv h step =
     (let envVars = fold (\<lambda>(key, v) acc. AList.update key v acc) (processEnv h) []
      in case env step of
           None \<Rightarrow> envVars
         | Some currentEnv \<Rightarrow>
             fold (\<lambda>key acc. case map_of currentEnv key of
                                None \<Rightarrow> acc
                              | Some v \<Rightarrow> AList.update key v acc)
                  (map fst currentEnv) envVars)"

text \<open>Lines 252-261.\<close>

definition stepEnvVars :: "Host \<Rightarrow> StepCommand \<Rightarrow> ProcessEnv" where
  "stepEnvVars h step = AList.update ''max_print_line'' maxPrintLine (inheritedEnv h step)"

text \<open>Lines 262-280: the call of \<^verbatim>\<open>cs.spawn\<close>.\<close>

definition spawnCall :: "Host \<Rightarrow> string \<Rightarrow> StepCommand \<Rightarrow> spawn_call" where
  "spawnCall h rootFile step =
     (if name step = texMagicProgramName \<or> name step = bibMagicProgramName
      then Shell (command step @
                   (case args step of None \<Rightarrow> [] | Some as \<Rightarrow> '' '' @ interpolate (first as)))
                 (dirname h rootFile) (stepEnvVars h step)
      else Argv (command step) (args step)
                (case rootDir h of
                   Some d \<Rightarrow> if command step = ''latexmk'' \<and> Some rootFile = localRootFile h \<and> d \<noteq> []
                             then d else dirname h rootFile
                 | None \<Rightarrow> dirname h rootFile)
                (stepEnvVars h step))"

definition spawnCwd :: "spawn_call \<Rightarrow> string" where
  "spawnCwd c = (case c of Shell _ d _ \<Rightarrow> d | Argv _ _ d _ \<Rightarrow> d)"

text \<open>Lines 240-282: the synchronous part of \<^verbatim>\<open>buildStep\<close>, up to the spawned process.
  Reading \<^verbatim>\<open>steps[index].command\<close> past the end of the array throws.\<close>

definition startStep ::
  "Host \<Rightarrow> Configuration \<Rightarrow> string \<Rightarrow> StepCommand list \<Rightarrow> nat \<Rightarrow> string \<Rightarrow> Builder
    \<Rightarrow> (exn \<times> Builder) + Builder" where
  "startStep h cfg rootFile steps index recipeName b =
     (let b1 = (if index = 0 then emit [ClearCompilerMessage] b else b);
          b2 = (if index > 0 \<and> latex_build_clearLog_everyRecipeStep_enabled cfg
                then emit [ClearCompilerMessage] b1 else b1)
      in case progressString recipeName steps index of
           Inl e \<Rightarrow> Inl (e, b2)
         | Inr progress \<Rightarrow>
             (let b3 = emit [Status ''sync~spin'' ('' '' @ progress)] b2
              in if index < length steps
                 then (let step = steps ! index;
                           call = spawnCall h rootFile step;
                           b4 = emit [Log (''Recipe step '' @ decimal (index + 1) @ '': '' @ command step
                                           @ '', '' @ (case args step of None \<Rightarrow> ''undefined''
                                                       | Some as \<Rightarrow> join '','' as)),
                                      Log ''Recipe step env'',
                                      Log (''cwd: '' @ spawnCwd call),
                                      Spawn call,
                                      Log ''LaTeX build process spawned.''] b3
                       in Inr (b4\<lparr>currentProcess := Some (spawned b4), spawned := spawned b4 + 1\<rparr>))
                 else Inl (TypeError, b3)))"

definition releaseBuildMutex :: "Builder \<Rightarrow> Builder" where
  "releaseBuildMutex b = emit [ReleaseBuildMutex] b"

text \<open>Lines 296-305: the handler of \<^verbatim>\<open>error\<close>.\<close>

definition stepError :: "Host \<Rightarrow> StepCommand \<Rightarrow> string \<Rightarrow> Builder \<Rightarrow> Builder" where
  "stepError h step msg b =
     releaseBuildMutex
       ((emit [Log (''LaTeX fatal error: '' @ msg),
               Log (''Does the executable exist? $PATH: '' @ interpolate (map_of (inheritedEnv h step) ''PATH'')),
               Log (''Does the executable exist? $Path: '' @ interpolate (map_of (inheritedEnv h step) ''Path'')),
               Log (''The environment variable $SHELL: '' @ interpolate (map_of (processEnv h) ''SHELL'')),
               Status ''x'' [],
               ShowError (''Recipe terminated with fatal error: '' @ msg @ ''.'')] b)
          \<lparr>currentProcess := None\<rparr>)"

text \<open>Lines 310-313.\<close>

definition stepFailedLog :: "Host \<Rightarrow> StepCommand \<Rightarrow> Builder \<Rightarrow> Builder" where
  "stepFailedLog h step b =
     emit [Log ''Recipe returns with error'',
           Log (''The environment variable $PATH: '' @ interpolate (map_of (inheritedEnv h step) ''PATH'')),
           Log (''The environment variable $Path: '' @ interpolate (map_of (inheritedEnv h step) ''Path'')),
           Log (''The environment variable $SHELL: '' @ interpolate (map_of (processEnv h) ''SHELL''))] b"

text \<open>Lines 319-322, before the cleaner has finished.\<close>

definition retryNotice :: "Builder \<Rightarrow> Builder" where
  "retryNotice b =
     emit [Status ''x'' ''Recipe terminated with error. Retry building the project.'',
           Log ''Cleaning auxiliary files and retrying build after toolchain error.'',
           CleanerClean] b"

text \<open>Lines 326-328.\<close>

definition stepKilled :: "Builder \<Rightarrow> Builder" where
  "stepKilled b = releaseBuildMutex ((emit [Status ''x'' []] b)\<lparr>currentProcess := None\<rparr>)"

text \<open>Lines 331-337.\<close>

definition stepFailed :: "Configuration \<Rightarrow> Builder \<Rightarrow> Builder" where
  "stepFailed cfg b =
     releaseBuildMutex
       ((emit ([Status ''x'' []]
               @ (if latex_autoClean_run cfg \<in> set [''onFailed'', ''onBuilt''] then [CleanerClean] else [])
               @ [ShowError ''Recipe terminated with error.'']) b)
          \<lparr>currentProcess := None\<rparr>)"

text \<open>Lines 356-376.\<close>

definition buildFinished ::
  "Host \<Rightarrow> Configuration \<Rightarrow> string \<Rightarrow> Builder \<Rightarrow> (exn \<times> Builder) + Builder" where
  "buildFinished h cfg rootFile b =
     (let b1 = emit [Log (''Successfully built '' @ rootFile @ ''.''),
                     Status ''check'' ''Recipe succeeded.''] b
      in if isLaTeXmkSkipped h then Inr b1
         else if postBuildFails h then Inl (ViewerError, b1)
         else Inr (emit ([RefreshViewer]
                @ (if view_pdf_viewer cfg = ''external'' \<and> synctex_afterBuild_enabled cfg
                   then [Log ''SyncTex after build invoked.'', SyncTeX] else [])
                @ (if latex_autoClean_run cfg = ''onBuilt''
                   then [Log ''Auto Clean invoked.'', CleanerClean] else [])) b1))"

text \<open>Lines 340-347: the last step has succeeded. The release is in a \<^verbatim>\<open>finally\<close>;
  what \<^verbatim>\<open>buildFinished\<close> throws leaves the handler as an unhandled rejection.\<close>

definition recipeFinished :: "Host \<Rightarrow> Configuration \<Rightarrow> string \<Rightarrow> Builder \<Rightarrow> Builder" where
  "recipeFinished h cfg rootFile b =
     (case buildFinished h cfg rootFile (emit [Log ''Recipe finished.''] b) of
        Inl (e, b') \<Rightarrow> emit [UnhandledRejection] (releaseBuildMutex (b'\<lparr>currentProcess := None\<rparr>))
      | Inr b' \<Rightarrow> releaseBuildMutex (b'\<lparr>currentProcess := None\<rparr>))"

text \<open>A call of \<^verbatim>\<open>buildStep\<close> made from an event handler or from a \<^verbatim>\<open>then\<close> callback: what
  it throws reaches no \<^verbatim>\<open>catch\<close>.\<close>

definition detached :: "(exn \<times> Builder) + Builder \<Rightarrow> (exn \<times> Builder) + Builder" where
  "detached r = (case r of Inl (e, b) \<Rightarrow> Inr (emit [UnhandledRejection] b) | Inr b \<Rightarrow> Inr b)"

text \<open>
  \<^verbatim>\<open>buildStep\<close> with its two handlers: the result is the builder state when the chain of
  steps has come to its end, or the exception that the synchronous part of this call throws.
\<close>

function buildStep ::
  "Host \<Rightarrow> Configuration \<Rightarrow> (nat \<Rightarrow> proc_outcome) \<Rightarrow> string \<Rightarrow> StepCommand list \<Rightarrow> nat \<Rightarrow> string
    \<Rightarrow> Builder \<Rightarrow> (exn \<times> Builder) + Builder" where
  "buildStep h cfg outcome rootFile steps index recipeName b =
     (case startStep h cfg rootFile steps index recipeName b of
        Inl thrown \<Rightarrow> Inl thrown
      | Inr b1 \<Rightarrow>
          (case outcome (spawned b) of
             ProcError msg \<Rightarrow> Inr (stepError h (steps ! index) msg b1)
           | ProcExit exitCode signal \<Rightarrow>
               (let b2 = emit [ParseCompilerLog] b1
                in if exitCode \<noteq> Some 0
                   then (let b3 = stepFailedLog h (steps ! index) b2
                         in if \<not> disableCleanAndRetry b3 \<and> latex_autoBuild_cleanAndRetry_enabled cfg
                            then (let b4 = b3\<lparr>disableCleanAndRetry := True\<rparr>
                                  in if signal \<noteq> Some ''SIGTERM''
                                     then detached (buildStep h cfg outcome rootFile steps 0 recipeName
                                                      (retryNotice b4))
                                     else Inr (stepKilled b4))
                            else Inr (stepFailed cfg b3))
                   else if int index = int (length steps) - 1
                   then Inr (recipeFinished h cfg rootFile b2)
                   else detached (buildStep h cfg outcome rootFile steps (index + 1) recipeName
                                    (emit [Log ''A step in recipe finished.''] b2)))))"
  by pat_completeness auto

subsection \<open>buildInitiator and build (lines 177-229)\<close>

text \<open>Lines 177-184. \<^verbatim>\<open>recipeName || 'Build'\<close> is the label of the progress display.\<close>

definition buildInitiator ::
  "Host \<Rightarrow> Configuration \<Rightarrow> (nat \<Rightarrow> proc_outcome) \<Rightarrow> string \<Rightarrow> string \<Rightarrow> string option
    \<Rightarrow> Builder \<Rightarrow> (exn \<times> Builder) + Builder" where
  "buildInitiator h cfg outcome rootFile languageId recipeName b =
     (case createSteps h cfg rootFile languageId recipeName b of
        (b1, None) \<Rightarrow> Inr (emit [Log ''Invalid toolchain.''] b1)
      | (b1, Some steps) \<Rightarrow>
          buildStep h cfg outcome rootFile steps 0
            (case recipeName of None \<Rightarrow> ''Build'' | Some n \<Rightarrow> if n \<noteq> [] then n else ''Build'') b1)"

text \<open>
  Lines 199-228: \<^verbatim>\<open>build\<close> from the point where \<^verbatim>\<open>preprocess\<close> has returned the
  release callback of the build mutex; the admission of lines 194-198 is the subject of
  the subsection on the admission of build requests. The result \<open>Inl\<close> is the exception that \<^verbatim>\<open>build\<close> rethrows.
\<close>

text \<open>Lines 207-211: the output directory, resolved against the directory of the root
  file when \<^verbatim>\<open>getOutDir\<close> gives a relative path.\<close>

definition outDirOf :: "Host \<Rightarrow> string \<Rightarrow> string" where
  "outDirOf h rootFile =
     (let rootDir = dirname h rootFile;
          outDir = getOutDir h rootFile
      in if \<not> pathIsAbsolute h outDir then pathResolve h rootDir outDir else outDir)"

definition build ::
  "Host \<Rightarrow> Configuration \<Rightarrow> (nat \<Rightarrow> proc_outcome) \<Rightarrow> string \<Rightarrow> string \<Rightarrow> string option
    \<Rightarrow> Builder \<Rightarrow> (exn \<times> Builder) + Builder" where
  "build h cfg outcome rootFile languageId recipeName b =
     (let b1 = emit [Status ''sync~spin'' [], Log (''Build root file '' @ rootFile),
                     Log (''outDir: '' @ outDirOf h rootFile)]
                 (b\<lparr>disableCleanAndRetry := False\<rparr>)
      in case (if outDirSetupFails h then Inl (SetupError, b1)
               else buildInitiator h cfg outcome rootFile languageId recipeName b1) of
           Inl (e, b') \<Rightarrow>
             Inl (e, releaseBuildMutex
                       (emit [Log ''Unexpected Error: please see the console log of the Developer Tools of VS Code.'',
                              Status ''x'' []] b'))
         | Inr b' \<Rightarrow> Inr b')"

subsection \<open>buildWithExternalCommand (lines 114-175)\<close>

text \<open>Lines 152-174: the handler of \<^verbatim>\<open>exit\<close>. On a zero exit code the release callback is
  called in the \<^verbatim>\<open>finally\<close> of line 169 and again in line 173, which is reached when the
  \<^verbatim>\<open>try\<close> block has not thrown.\<close>

definition externalExit ::
  "Host \<Rightarrow> Configuration \<Rightarrow> string option \<Rightarrow> int option \<Rightarrow> Builder \<Rightarrow> Builder" where
  "externalExit h cfg rootFile exitCode b =
     (let b1 = emit [ParseCompilerLog] b
      in if exitCode \<noteq> Some 0
         then releaseBuildMutex
                ((emit [Log ''Build returns with error'', Status ''x'' [],
                        ShowError ''Build terminated with error.''] b1)\<lparr>currentProcess := None\<rparr>)
         else (let b2 = emit [Log ''Successfully built.'', Status ''check'' ''Build succeeded.''] b1;
                   tried = (case rootFile of
                              None \<Rightarrow> if postBuildFails h then Inl (ViewerError, b2)
                                        else Inr (emit [RefreshViewer] b2)
                            | Some rf \<Rightarrow> buildFinished h cfg rf b2)
               in case tried of
                    Inl (e, b3) \<Rightarrow>
                      emit [UnhandledRejection] (releaseBuildMutex (b3\<lparr>currentProcess := None\<rparr>))
                  | Inr b3 \<Rightarrow>
                      releaseBuildMutex
                        ((releaseBuildMutex (b3\<lparr>currentProcess := None\<rparr>))\<lparr>currentProcess := None\<rparr>)))"

text \<open>Lines 119-130, from the point where \<^verbatim>\<open>preprocess\<close> has returned the release
  callback: the external command is spawned, in the inherited environment.\<close>

definition externalSpawn ::
  "Host \<Rightarrow> string \<Rightarrow> string list \<Rightarrow> string \<Rightarrow> string option \<Rightarrow> Builder \<Rightarrow> Builder" where
  "externalSpawn h cmd arguments pwd rootFile b =
     (let wd = (case workspaceFolder h of None \<Rightarrow> pwd | Some d \<Rightarrow> if d \<noteq> [] then d else pwd);
          arguments' = (case rootFile of None \<Rightarrow> arguments
                        | Some rf \<Rightarrow> map (replaceArgumentPlaceholders h rf) arguments);
          b1 = emit [Status ''sync~spin'' [],
                     Log (''Build using the external command: '' @ cmd @ '' ''
                          @ (if length arguments' > 0 then join '' '' arguments' else [])),
                     Log (''cwd: '' @ wd),
                     Spawn (Argv cmd (Some arguments') wd (processEnv h)),
                     Log ''External build process spawned.''] b
      in b1\<lparr>currentProcess := Some (spawned b1), spawned := spawned b1 + 1\<rparr>)"

text \<open>Lines 144-150: the handler of \<^verbatim>\<open>error\<close>.\<close>

definition externalError :: "string \<Rightarrow> Builder \<Rightarrow> Builder" where
  "externalError msg b =
     releaseBuildMutex
       ((emit [Log (''Build fatal error: '' @ msg), Status ''x'' [],
               ShowError (''Build terminated with fatal error: '' @ msg @ ''.'')] b)
          \<lparr>currentProcess := None\<rparr>)"

text \<open>Lines 119-174.\<close>

definition buildWithExternalCommand ::
  "Host \<Rightarrow> Configuration \<Rightarrow> (nat \<Rightarrow> proc_outcome) \<Rightarrow> string \<Rightarrow> string list \<Rightarrow> string
    \<Rightarrow> string option \<Rightarrow> Builder \<Rightarrow> Builder" where
  "buildWithExternalCommand h cfg outcome cmd arguments pwd rootFile b =
     (case outcome (spawned b) of
        ProcError msg \<Rightarrow> externalError msg (externalSpawn h cmd arguments pwd rootFile b)
      | ProcExit exitCode signal \<Rightarrow>
          externalExit h cfg rootFile exitCode (externalSpawn h cmd arguments pwd rootFile b))"

subsection \<open>Admission of build requests (lines 91-104, 115-118, 194-198)\<close>

text \<open>
  Modelled from the spec: the class \<^verbatim>\<open>Mutex\<close> of \<^verbatim>\<open>lib/await-semaphore\<close> is not among
  the sources. It is the counting mutex of the spec (section 9), represented by its
  \<^verbatim>\<open>count\<close>, which starts at one.
\<close>

type_synonym Mutex = nat

definition newMutex :: Mutex where
  "newMutex = 1"

text \<open>Modelled from the spec: \<^verbatim>\<open>acquire\<close> is granted only while the count is positive, and
  waits otherwise.\<close>

definition grantable :: "Mutex \<Rightarrow> bool" where
  "grantable count = (count > 0)"

text \<open>Modelled from the spec: a granted \<^verbatim>\<open>acquire\<close> decrements the count.\<close>

definition acquire :: "Mutex \<Rightarrow> Mutex" where
  "acquire count = count - 1"

text \<open>Modelled from the spec: the release callback increments the count.\<close>

definition release :: "Mutex \<Rightarrow> Mutex" where
  "release count = count + 1"

text \<open>Modelled from the spec: a further call of a release callback that has been called
  already is redundant (section 9 calls the second call of the source redundant): it
  leaves the count alone.\<close>

definition releaseAgain :: "Mutex \<Rightarrow> Mutex" where
  "releaseAgain count = count"

text \<open>The two mutexes of the builder (lines 23-24).\<close>

record Gate =
  waitingForBuildToFinishMutex :: Mutex
  buildMutex :: Mutex

text \<open>
  Where a request stands in \<^verbatim>\<open>build\<close> (or \<^verbatim>\<open>buildWithExternalCommand\<close>) and
  \<^verbatim>\<open>preprocess\<close>, one stage for each point at which an asynchronous function of
  JavaScript can be suspended:
  \<^item> \<open>NotArrived\<close>: the call has not been made;
  \<^item> \<open>Rejected\<close>: the call has returned at line 116 or 196;
  \<^item> \<open>SavingAll\<close>: suspended at \<^verbatim>\<open>await saveAll()\<close>, line 98;
  \<^item> \<open>AwaitingWaitingMutex\<close>: suspended at line 100, the waiting mutex not yet granted;
  \<^item> \<open>AwaitingBuildMutex\<close>: holds the waiting mutex, suspended at line 101;
  \<^item> \<open>GrantedBuildMutex\<close>: the build mutex is granted, line 102 has not run yet;
  \<^item> \<open>Building\<close>: \<^verbatim>\<open>preprocess\<close> has returned, the build holds the build mutex;
  \<^item> \<open>Released\<close>: the release callback of the build mutex has been called, once or
    more often.
\<close>

datatype stage =
    NotArrived
  | Rejected
  | SavingAll
  | AwaitingWaitingMutex
  | AwaitingBuildMutex
  | GrantedBuildMutex
  | Building
  | Released

record System =
  gate :: Gate
  stage_of :: "nat \<Rightarrow> stage"

text \<open>Lines 91-93.\<close>

definition isWaitingForBuildToFinish :: "Gate \<Rightarrow> bool" where
  "isWaitingForBuildToFinish g = (waitingForBuildToFinishMutex g < 1)"

definition move :: "nat \<Rightarrow> stage \<Rightarrow> System \<Rightarrow> System" where
  "move r st s = s\<lparr>stage_of := (stage_of s)(r := st)\<rparr>"

text \<open>The events of the system, each for a request \<open>r\<close>.\<close>

datatype action =
    Arrive nat
  | SaveAllDone nat
  | GrantWaiting nat
  | GrantBuild nat
  | Resume nat
  | Release nat
  | ReleaseAgain nat

text \<open>One event; \<open>None\<close> when the event cannot happen in the state.
  \<^item> \<open>Arrive\<close>: lines 194-198 (and 115-118) up to the first \<^verbatim>\<open>await\<close>;
  \<^item> \<open>SaveAllDone\<close>: lines 98-100, the request asks for the waiting mutex;
  \<^item> \<open>GrantWaiting\<close>: the waiting mutex is granted, line 101 asks for the build mutex;
  \<^item> \<open>GrantBuild\<close>: the build mutex is granted;
  \<^item> \<open>Resume\<close>: lines 102-103, the waiting mutex is released, \<^verbatim>\<open>preprocess\<close> returns;
  \<^item> \<open>Release\<close>: the build calls the release callback of the build mutex for the first
    time;
  \<^item> \<open>ReleaseAgain\<close>: the build calls the same release callback once more, as
    \<^verbatim>\<open>buildWithExternalCommand\<close> does at line 173 after line 169.
  A build may make neither call (line 181), the first only, or both.\<close>

fun perform :: "action \<Rightarrow> System \<Rightarrow> System option" where
  "perform (Arrive r) s =
     (if stage_of s r \<noteq> NotArrived then None
      else if isWaitingForBuildToFinish (gate s) then Some (move r Rejected s)
      else Some (move r SavingAll s))"
| "perform (SaveAllDone r) s =
     (if stage_of s r = SavingAll then Some (move r AwaitingWaitingMutex s) else None)"
| "perform (GrantWaiting r) s =
     (if stage_of s r = AwaitingWaitingMutex \<and> grantable (waitingForBuildToFinishMutex (gate s))
      then Some (move r AwaitingBuildMutex
                   (s\<lparr>gate := (gate s)\<lparr>waitingForBuildToFinishMutex :=
                                           acquire (waitingForBuildToFinishMutex (gate s))\<rparr>\<rparr>))
      else None)"
| "perform (GrantBuild r) s =
     (if stage_of s r = AwaitingBuildMutex \<and> grantable (buildMutex (gate s))
      then Some (move r GrantedBuildMutex
                   (s\<lparr>gate := (gate s)\<lparr>buildMutex := acquire (buildMutex (gate s))\<rparr>\<rparr>))
      else None)"
| "perform (Resume r) s =
     (if stage_of s r = GrantedBuildMutex
      then Some (move r Building
                   (s\<lparr>gate := (gate s)\<lparr>waitingForBuildToFinishMutex :=
                                           release (waitingForBuildToFinishMutex (gate s))\<rparr>\<rparr>))
      else None)"
| "perform (Release r) s =
     (if stage_of s r = Building
      then Some (move r Released
                   (s\<lparr>gate := (gate s)\<lparr>buildMutex := release (buildMutex (gate s))\<rparr>\<rparr>))
      else None)"
| "perform (ReleaseAgain r) s =
     (if stage_of s r = Released
      then Some (s\<lparr>gate := (gate s)\<lparr>buildMutex := releaseAgain (buildMutex (gate s))\<rparr>\<rparr>)
      else None)"

fun run :: "action list \<Rightarrow> System \<Rightarrow> System option" where
  "run [] s = Some s"
| "run (a # as) s = (case perform a s of None \<Rightarrow> None | Some s' \<Rightarrow> run as s')"

text \<open>The constructor of lines 44-45: two fresh mutexes, no request yet.\<close>

definition initial :: System where
  "initial = \<lparr>gate = \<lparr>waitingForBuildToFinishMutex = newMutex, buildMutex = newMutex\<rparr>,
              stage_of = (\<lambda>r. NotArrived)\<rparr>"

definition reachable :: "System \<Rightarrow> bool" where
  "reachable s = (\<exists>as. run as initial = Some s)"

subsection \<open>Concrete inputs\<close>

text \<open>A host whose root file has the given content, a configuration with the given
  recipes, tools and default-recipe policy, and the builder as the constructor leaves it.\<close>

definition host_with :: "string \<Rightarrow> Host" where
  "host_with content =
     \<lparr>readFileSync = (\<lambda>file. content),
      dirname = (\<lambda>file. ''/project''),
      processEnv = [(''PATH'', ''/usr/bin''), (''HOME'', ''/home/user'')],
      win32 = False,
      scriptLatexmkBat = ''/ext/scripts/latexmk.bat'',
      scriptLatexmk = ''/ext/scripts/latexmk'',
      replaceArgumentPlaceholders = (\<lambda>rootFile arg. if arg = ''%DOC%'' then ''/project/main'' else arg),
      getOutDir = (\<lambda>file. ''/project''),
      pathIsAbsolute = (\<lambda>path. take 1 path = ''/''),
      pathResolve = (\<lambda>dir path. dir @ ''/'' @ path),
      outDirSetupFails = False,
      localRootFile = None,
      rootDir = None,
      workspaceFolder = None,
      isLaTeXmkSkipped = False,
      postBuildFails = False\<rparr>"

definition config_with :: "Recipe list \<Rightarrow> StepCommand list \<Rightarrow> string \<Rightarrow> Configuration" where
  "config_with recipes tools defaultRecipeName =
     \<lparr>latex_build_forceRecipeUsage = False,
      latex_magic_args = [''-synctex=1'', ''-interaction=nonstopmode'', ''%DOC%''],
      latex_magic_bib_args = [''%DOCFILE%''],
      latex_recipes = recipes,
      latex_recipe_default = defaultRecipeName,
      latex_tools = tools,
      docker_enabled = False,
      latex_option_maxPrintLine_enabled = True,
      latex_autoBuild_cleanAndRetry_enabled = True,
      latex_autoClean_run = ''never'',
      latex_build_clearLog_everyRecipeStep_enabled = False,
      view_pdf_viewer = ''tab'',
      synctex_afterBuild_enabled = False\<rparr>"

definition new_builder :: Builder where
  "new_builder =
     \<lparr>previouslyUsedRecipe = None, previousLanguageId = None, disableCleanAndRetry = False,
      isMiktex = False, currentProcess = None, spawned = 0, trace = []\<rparr>"

definition tool_pdflatex :: StepCommand where
  "tool_pdflatex = \<lparr>name = ''pdflatex'', command = ''pdflatex'', args = Some [''%DOC%''], env = None\<rparr>"

definition recipe_pdflatex :: Recipe where
  "recipe_pdflatex = \<lparr>recipe_name = ''pdflatex'', recipe_tools = [ToolName ''pdflatex'']\<rparr>"

text \<open>A root file with both directives, and one with the primary directive only.\<close>

definition content_tex_bib :: string where
  "content_tex_bib =
     ''% !TEX program = xelatex'' @ [CHR 0x0A] @ ''% !BIB program = biber'' @ [CHR 0x0A]
     @ ''text''"

definition content_tex :: string where
  "content_tex = ''% !TEX program = xelatex'' @ [CHR 0x0A] @ ''text''"

definition recipe_undefined_tool :: Recipe where
  "recipe_undefined_tool = \<lparr>recipe_name = ''broken'', recipe_tools = [ToolName ''missing'']\<rparr>"

definition always_succeeds :: "nat \<Rightarrow> proc_outcome" where
  "always_succeeds n = ProcExit (Some 0) None"

definition always_fails :: "nat \<Rightarrow> proc_outcome" where
  "always_fails n = ProcExit (Some 1) None"

subsection \<open>Observations\<close>

text \<open>The exception a call has thrown, if any, and the builder state it has left.\<close>

definition thrown :: "(exn \<times> Builder) + Builder \<Rightarrow> exn option" where
  "thrown r = (case r of Inl (e, b) \<Rightarrow> Some e | Inr b \<Rightarrow> None)"

definition final :: "(exn \<times> Builder) + Builder \<Rightarrow> Builder" where
  "final r = (case r of Inl (e, b) \<Rightarrow> b | Inr b \<Rightarrow> b)"

text \<open>The option \<^verbatim>\<open>env\<close> of a call of \<^verbatim>\<open>cs.spawn\<close>.\<close>

definition spawnEnv :: "spawn_call \<Rightarrow> ProcessEnv" where
  "spawnEnv c = (case c of Shell _ _ e \<Rightarrow> e | Argv _ _ _ e \<Rightarrow> e)"

definition isSpawn :: "event \<Rightarrow> bool" where
  "isSpawn e = (case e of Spawn _ \<Rightarrow> True | _ \<Rightarrow> False)"

text \<open>How often the release callback of the build mutex has been called, and how often a
  clean-and-retry cycle has been started (line 319).\<close>

definition releases :: "Builder \<Rightarrow> nat" where
  "releases b = length (filter (\<lambda>e. e = ReleaseBuildMutex) (trace b))"

definition retryStatus :: event where
  "retryStatus = Status ''x'' ''Recipe terminated with error. Retry building the project.''"

definition retries :: "Builder \<Rightarrow> nat" where
  "retries b = length (filter (\<lambda>e. e = retryStatus) (trace b))"

text \<open>The events of the logger and of the message boxes.\<close>

definition isReport :: "event \<Rightarrow> bool" where
  "isReport e = (case e of Log _ \<Rightarrow> True | ShowError _ \<Rightarrow> True | _ \<Rightarrow> False)"

definition tool_latexmk_env :: StepCommand where
  "tool_latexmk_env =
     \<lparr>name = ''latexmk'', command = ''latexmk'', args = Some [''-pdf''],
      env = Some [(''PATH'', ''/opt/texlive/bin''), (''max_print_line'', ''80'')]\<rparr>"

text \<open>The second state has the trace of the first, extended by reports only, and the same
  fields otherwise but for the memory of the last recipe.\<close>

definition reportedSince :: "Builder \<Rightarrow> Builder \<Rightarrow> bool" where
  "reportedSince b b' =
     ((\<exists>es. trace b' = trace b @ es \<and> (\<forall>e \<in> set es. isReport e))
      \<and> disableCleanAndRetry b' = disableCleanAndRetry b \<and> spawned b' = spawned b
      \<and> currentProcess b' = currentProcess b \<and> isMiktex b' = isMiktex b)"

subsection \<open>Observations of the admission\<close>

text \<open>The stages in which a request holds the waiting mutex (between the grant of line
  100 and the release of line 102), and those in which it holds the build mutex.\<close>

definition holdsWaiting :: "stage \<Rightarrow> bool" where
  "holdsWaiting st = (st = AwaitingBuildMutex \<or> st = GrantedBuildMutex)"

definition holdsBuild :: "stage \<Rightarrow> bool" where
  "holdsBuild st = (st = GrantedBuildMutex \<or> st = Building)"

text \<open>The request an event belongs to.\<close>

fun subject :: "action \<Rightarrow> nat" where
  "subject (Arrive r) = r"
| "subject (SaveAllDone r) = r"
| "subject (GrantWaiting r) = r"
| "subject (GrantBuild r) = r"
| "subject (Resume r) = r"
| "subject (Release r) = r"
| "subject (ReleaseAgain r) = r"

definition waitingHolders :: "System \<Rightarrow> nat set" where
  "waitingHolders s = {r. holdsWaiting (stage_of s r)}"

definition buildHolders :: "System \<Rightarrow> nat set" where
  "buildHolders s = {r. holdsBuild (stage_of s r)}"

text \<open>The count of each mutex is one when no request holds it, and zero when exactly one
  request holds it.\<close>

definition mutexes_consistent :: "System \<Rightarrow> bool" where
  "mutexes_consistent s =
     (((waitingHolders s = {} \<and> waitingForBuildToFinishMutex (gate s) = 1)
        \<or> ((\<exists>r. waitingHolders s = {r}) \<and> waitingForBuildToFinishMutex (gate s) = 0))
      \<and> ((buildHolders s = {} \<and> buildMutex (gate s) = 1)
        \<or> ((\<exists>r. buildHolders s = {r}) \<and> buildMutex (gate s) = 0)))"

text \<open>Request 0 is building and request 1 waits for the build mutex; before that, request
  0 is building and no request waits.\<close>

definition system_building :: System where
  "system_building =
     \<lparr>gate = \<lparr>waitingForBuildToFinishMutex = 1, buildMutex = 0\<rparr>,
      stage_of = (\<lambda>r. NotArrived)(0 := Building)\<rparr>"

definition system_waiting :: System where
  "system_waiting =
     \<lparr>gate = \<lparr>waitingForBuildToFinishMutex = 0, buildMutex = 0\<rparr>,
      stage_of = (\<lambda>r. NotArrived)(0 := Building, 1 := AwaitingBuildMutex)\<rparr>"

text \<open>Request 0 has called its release callback twice, request 1 is building and request 2
  waits for the build mutex.\<close>

definition system_released_twice :: System where
  "system_released_twice =
     \<lparr>gate = \<lparr>waitingForBuildToFinishMutex = 0, buildMutex = 0\<rparr>,
      stage_of = (\<lambda>r. NotArrived)(0 := Released, 1 := Building, 2 := AwaitingBuildMutex)\<rparr>"

section \<open>Termination of the chain of steps\<close>

lemma emit_fields [simp]:
  "trace (emit es b) = trace b @ es"
  "disableCleanAndRetry (emit es b) = disableCleanAndRetry b"
  "spawned (emit es b) = spawned b"
  "currentProcess (emit es b) = currentProcess b"
  "previouslyUsedRecipe (emit es b) = previouslyUsedRecipe b"
  "previousLanguageId (emit es b) = previousLanguageId b"
  "isMiktex (emit es b) = isMiktex b"
  by (simp_all add: emit_def)

lemma startStep_Inr:
  assumes "startStep h cfg rootFile steps index recipeName b = Inr b1"
  shows "disableCleanAndRetry b1 = disableCleanAndRetry b" and "index < length steps"
  using assms unfolding startStep_def Let_def
  by (auto split: sum.splits if_splits)

text \<open>The chain of steps ends: a retry sets the guard \<open>disableCleanAndRetry\<close>, which is
  never unset inside the chain, and between two retries the index only grows.\<close>

termination buildStep
proof (relation "measures
    [\<lambda>(h, cfg, outcome, rootFile, steps, index, recipeName, b). if disableCleanAndRetry b then 0 else 1,
     \<lambda>(h, cfg, outcome, rootFile, steps, index, recipeName, b). length steps - index]", goal_cases)
  case 1
  show ?case by simp
next
  case (2 h cfg outcome rootFile steps index recipeName b b1 exitCode signal b2 b3 b4)
  from 2(1) have "disableCleanAndRetry b1 = disableCleanAndRetry b" by (rule startStep_Inr)
  with 2 show ?case by (simp add: stepFailedLog_def retryNotice_def)
next
  case (3 h cfg outcome rootFile steps index recipeName b b1 exitCode signal b2)
  from 3(1) have "disableCleanAndRetry b1 = disableCleanAndRetry b" "index < length steps"
    by (rule startStep_Inr)+
  with 3 show ?case by simp
qed

declare buildStep.simps [simp del]

section \<open>Properties of the recipe resolver\<close>

lemma magicCommand_result:
  "snd (magicCommand family magicName content rx rxOptions) =
     map_option (\<lambda>prog. magicStep magicName prog (js_match content rxOptions)) (js_match content rx)"
  by (simp add: magicCommand_def Let_def split: option.splits)

lemma findProgramMagic_tex:
  "fst (snd (findProgramMagic h rootFile)) =
     map_option (\<lambda>prog. magicStep texMagicProgramName prog
                           (js_match (readFileSync h rootFile) regexTexOptions))
       (js_match (readFileSync h rootFile) regexTex)"
  using magicCommand_result [of "''TeX''" texMagicProgramName "readFileSync h rootFile" regexTex regexTexOptions]
  by (auto simp: findProgramMagic_def Let_def split: prod.splits)

lemma findProgramMagic_bib:
  "snd (snd (findProgramMagic h rootFile)) =
     map_option (\<lambda>prog. magicStep bibMagicProgramName prog
                           (js_match (readFileSync h rootFile) regexBibOptions))
       (js_match (readFileSync h rootFile) regexBib)"
  using magicCommand_result [of "''BIB''" bibMagicProgramName "readFileSync h rootFile" regexBib regexBibOptions]
  by (auto simp: findProgramMagic_def Let_def split: prod.splits)

lemma snd_finishSteps:
  "snd (finishSteps h cfg rootFile steps b) =
     Some (snd (prepareSteps h cfg (isMiktex b) rootFile steps))"
  by (simp add: finishSteps_def split: prod.splits)

lemma snd_prepareSteps:
  "snd (prepareSteps h cfg miktex rootFile steps) =
     map (\<lambda>step. snd (prepareStep h cfg miktex rootFile step)) steps"
  by (induction steps) (auto split: prod.splits)

lemma content_tex_bib_matches:
  "js_match content_tex_bib regexTex = Some ''xelatex''"
  "js_match content_tex_bib regexBib = Some ''biber''"
  "js_match content_tex_bib regexTexOptions = None"
  "js_match content_tex_bib regexBibOptions = None"
  by code_simp+

lemma content_tex_matches:
  "js_match content_tex regexTex = Some ''xelatex''"
  "js_match content_tex regexBib = None"
  "js_match content_tex regexTexOptions = None"
  by code_simp+

lemma readFileSync_host_with [simp]: "readFileSync (host_with content) file = content"
  by (simp add: host_with_def)

text \<open>
  C6. When no recipe name is requested and recipe usage is not forced, a root file with a
  primary-program directive is resolved from its directives alone: with a
  bibliography-program directive as well, the step list is exactly the four entries
  primary, bib, primary, primary, in this order; with the primary directive only, it is
  the single primary step. Each entry is the step of its directive (with the configured
  default arguments and the suffixed name when the directive has no options), prepared
  as every step is.
\<close>

theorem directive_steps:
  assumes "js_match (readFileSync h rootFile) regexTex = Some prog"
      and "\<not> latex_build_forceRecipeUsage cfg"
  shows "snd (createSteps h cfg rootFile languageId None b) =
     (let content = readFileSync h rootFile;
          prepared = (\<lambda>step. snd (prepareStep h cfg (isMiktex b) rootFile step));
          primary = prepared (withDefaultArgs texMagicProgramName (latex_magic_args cfg)
                       (magicStep texMagicProgramName prog (js_match content regexTexOptions)))
      in case js_match content regexBib of
           Some bibProg \<Rightarrow>
             Some [primary,
                   prepared (withDefaultArgs bibMagicProgramName (latex_magic_bib_args cfg)
                       (magicStep bibMagicProgramName bibProg (js_match content regexBibOptions))),
                   primary, primary]
         | None \<Rightarrow> Some [primary])"
proof -
  obtain magicLog magicTex magicBib
    where fm: "findProgramMagic h rootFile = (magicLog, magicTex, magicBib)"
    by (cases "findProgramMagic h rootFile") auto
  have tex: "magicTex = Some (magicStep texMagicProgramName prog
                                (js_match (readFileSync h rootFile) regexTexOptions))"
    using findProgramMagic_tex [of h rootFile] fm assms(1) by simp
  have bib: "magicBib = map_option (\<lambda>p. magicStep bibMagicProgramName p
                                          (js_match (readFileSync h rootFile) regexBibOptions))
                          (js_match (readFileSync h rootFile) regexBib)"
    using findProgramMagic_bib [of h rootFile] fm by simp
  show ?thesis
    using assms(2)
    by (simp add: createSteps_def fm tex bib directiveInForce_def snd_finishSteps snd_prepareSteps
          magicSteps_def Let_def split: option.splits)
qed

theorem directive_steps_witness:
  "snd (createSteps (host_with content_tex_bib) (config_with [] [] ''first'')
          ''/project/main.tex'' ''latex'' None new_builder) =
     Some [\<lparr>name = ''TeXMagicProgramWithArgs'', command = ''xelatex'',
             args = Some [''-synctex=1'', ''-interaction=nonstopmode'', ''/project/main''], env = None\<rparr>,
           \<lparr>name = ''BibMagicProgramWithArgs'', command = ''biber'',
             args = Some [''%DOCFILE%''], env = None\<rparr>,
           \<lparr>name = ''TeXMagicProgramWithArgs'', command = ''xelatex'',
             args = Some [''-synctex=1'', ''-interaction=nonstopmode'', ''/project/main''], env = None\<rparr>,
           \<lparr>name = ''TeXMagicProgramWithArgs'', command = ''xelatex'',
             args = Some [''-synctex=1'', ''-interaction=nonstopmode'', ''/project/main''], env = None\<rparr>]
   \<and> snd (createSteps (host_with content_tex) (config_with [] [] ''first'')
          ''/project/main.tex'' ''latex'' None new_builder) =
     Some [\<lparr>name = ''TeXMagicProgramWithArgs'', command = ''xelatex'',
             args = Some [''-synctex=1'', ''-interaction=nonstopmode'', ''/project/main''], env = None\<rparr>]"
proof -
  have tex1: "js_match (readFileSync (host_with content_tex_bib) ''/project/main.tex'') regexTex
                = Some ''xelatex''"
    by (simp add: content_tex_bib_matches)
  have tex2: "js_match (readFileSync (host_with content_tex) ''/project/main.tex'') regexTex
                = Some ''xelatex''"
    by (simp add: content_tex_matches)
  have free: "\<not> latex_build_forceRecipeUsage (config_with [] [] ''first'')"
    by (simp add: config_with_def)
  show ?thesis
    using directive_steps [OF tex1 free, of "''latex''" new_builder]
          directive_steps [OF tex2 free, of "''latex''" new_builder]
    by (simp add: content_tex_bib_matches content_tex_matches Let_def magicStep_def
          withDefaultArgs_def prepareStep_def host_with_def config_with_def new_builder_def
          texMagicProgramName_def bibMagicProgramName_def)
qed

lemma emit_emit [simp]: "emit es2 (emit es1 b) = emit (es1 @ es2) b"
  by (simp add: emit_def)

lemma directiveInForce_None:
  assumes "recipeName \<noteq> None \<or> latex_build_forceRecipeUsage cfg \<or>
           js_match (readFileSync h rootFile) regexTex = None"
  shows "directiveInForce cfg recipeName (fst (snd (findProgramMagic h rootFile))) = None"
  using assms by (auto simp: directiveInForce_def findProgramMagic_tex)

text \<open>
  C5 (as amended). If zero recipes are configured and the resolution is not directive-based
  (a recipe name is requested, or recipe usage is forced, or the root file has no
  primary-program directive), the resolution fails at once: the error
  \<^verbatim>\<open>No recipes defined.\<close> is logged and shown, no step list is produced, and nothing
  but the trace has changed, so the check comes before every other step of the recipe
  resolution.
\<close>

theorem no_recipes_defined:
  assumes "latex_recipes cfg = []"
      and "recipeName \<noteq> None \<or> latex_build_forceRecipeUsage cfg \<or>
           js_match (readFileSync h rootFile) regexTex = None"
  shows "createSteps h cfg rootFile languageId recipeName b =
           (emit (fst (findProgramMagic h rootFile)
                  @ [Log ''No recipes defined.'', ShowError ''No recipes defined.'']) b, None)"
proof -
  obtain magicLog magicTex magicBib
    where fm: "findProgramMagic h rootFile = (magicLog, magicTex, magicBib)"
    by (cases "findProgramMagic h rootFile") auto
  have "directiveInForce cfg recipeName magicTex = None"
    using directiveInForce_None [OF assms(2)] fm by simp
  then show ?thesis
    by (simp add: createSteps_def fm assms(1))
qed

theorem no_recipes_defined_witness:
  "createSteps (host_with ''text'') (config_with [] [] ''first'') ''/project/main.tex'' ''latex'' None new_builder
     = (new_builder\<lparr>trace := [Log ''No recipes defined.'', ShowError ''No recipes defined.'']\<rparr>, None)"
proof -
  have none: "js_match ''text'' regexTex = None" "js_match ''text'' regexBib = None"
    by code_simp+
  have "fst (findProgramMagic (host_with ''text'') ''/project/main.tex'') = []"
    by (simp add: findProgramMagic_def magicCommand_def none)
  then show ?thesis
    using no_recipes_defined [of "config_with [] [] ''first''" None "host_with ''text''"
            "''/project/main.tex''" "''latex''" new_builder]
    by (simp add: none config_with_def emit_def new_builder_def)
qed

text \<open>C5 as stated fails: with zero recipes configured, a root file with a primary-program
  directive is resolved to the step of the directive, since line 383 comes before the
  check of line 401.\<close>

theorem zero_recipes_counterexample:
  "latex_recipes (config_with [] [] ''first'') = [] \<and>
   snd (createSteps (host_with content_tex) (config_with [] [] ''first'')
          ''/project/main.tex'' ''latex'' None new_builder) =
     Some [\<lparr>name = ''TeXMagicProgramWithArgs'', command = ''xelatex'',
             args = Some [''-synctex=1'', ''-interaction=nonstopmode'', ''/project/main''], env = None\<rparr>]"
  by code_simp

text \<open>C4 as stated fails: the requested name \<^verbatim>\<open>nonexistent\<close> matches no recipe (the one
  recipe is \<^verbatim>\<open>pdflatex\<close>), and the step list of the first configured recipe is produced.\<close>

theorem missing_recipe_counterexample:
  "map recipe_name (latex_recipes (config_with [recipe_pdflatex] [tool_pdflatex] ''first''))
      = [''pdflatex''] \<and>
   snd (createSteps (host_with ''text'') (config_with [recipe_pdflatex] [tool_pdflatex] ''first'')
          ''/project/main.tex'' ''latex'' (Some ''nonexistent'') new_builder) =
     Some [\<lparr>name = ''pdflatex'', command = ''pdflatex'', args = Some [''/project/main''], env = None\<rparr>]"
  by code_simp

lemma recipeByName_missing:
  assumes "n \<noteq> []" and "\<forall>r \<in> set recipes. recipe_name r \<noteq> n"
  shows "recipeByName recipes (Some n) b =
           (emit [Log (''Failed to resolve build recipe: '' @ n),
                  ShowError (''Failed to resolve build recipe: '' @ n)] b, None)"
proof -
  have "filter (\<lambda>candidate. Some (recipe_name candidate) = Some n) recipes = []"
    using assms(2) by (auto simp: filter_empty_conv)
  then show ?thesis
    using assms(1) by (simp add: recipeByName_def truthy_def interpolate_def first_def)
qed

lemma snd_recipeFallback:
  "snd (recipeFallback cfg languageId recipeName b) =
     (if latex_recipe_default cfg = ''lastUsed'' \<and> previouslyUsedRecipe b \<noteq> None
      then previouslyUsedRecipe b
      else first (languageCandidates languageId (latex_recipes cfg)))"
  by (auto simp: recipeFallback_def Let_def)


lemma chooseRecipe_missing:
  assumes "requestedName cfg recipeName = Some n" and "n \<noteq> []"
      and "\<forall>r \<in> set (latex_recipes cfg). recipe_name r \<noteq> n"
  shows "chooseRecipe cfg languageId recipeName b0 =
           recipeFallback cfg languageId (Some n)
             (emit [Log (''Failed to resolve build recipe: '' @ n),
                    ShowError (''Failed to resolve build recipe: '' @ n)]
                (if previousLanguageId b0 \<noteq> Some languageId
                 then b0\<lparr>previouslyUsedRecipe := None\<rparr> else b0))"
  using recipeByName_missing [OF assms(2,3)]
  by (simp add: chooseRecipe_def assms(1) Let_def)

lemma recipeFallback_state:
  "\<exists>es. trace (fst (recipeFallback cfg languageId recipeName b)) = trace b @ es"
  "isMiktex (fst (recipeFallback cfg languageId recipeName b)) = isMiktex b"
  by (auto simp: recipeFallback_def Let_def)

lemma finishSteps_state:
  "\<exists>es. trace (fst (finishSteps h cfg rootFile steps b)) = trace b @ es"
  by (auto simp: finishSteps_def split: prod.splits)

text \<open>
  C4 (as amended). When at least one recipe is configured, the name that is looked up (the
  requested name, or a configured default name other than \<^verbatim>\<open>first\<close> and \<^verbatim>\<open>lastUsed\<close>) is
  not empty and matches none of the configured recipes, and the resolution is not
  directive-based, an error naming the missing recipe
  is logged and shown, and the resolution goes on with the fallback of lines 421-438: the
  last used recipe when the policy is \<^verbatim>\<open>lastUsed\<close> and one is remembered for the same
  language, else the first configured recipe that passes the language filter. The step
  list is that of the fallback recipe; the resolution fails only when there is none.
\<close>

theorem missing_recipe_falls_back:
  assumes "latex_recipes cfg \<noteq> []"
      and "recipeName \<noteq> None \<or> latex_build_forceRecipeUsage cfg \<or>
           js_match (readFileSync h rootFile) regexTex = None"
      and "requestedName cfg recipeName = Some n" and "n \<noteq> []"
      and "\<forall>r \<in> set (latex_recipes cfg). recipe_name r \<noteq> n"
  shows "Log (''Failed to resolve build recipe: '' @ n)
           \<in> set (trace (fst (createSteps h cfg rootFile languageId recipeName b)))
       \<and> ShowError (''Failed to resolve build recipe: '' @ n)
           \<in> set (trace (fst (createSteps h cfg rootFile languageId recipeName b)))
       \<and> snd (createSteps h cfg rootFile languageId recipeName b) =
           (case (if latex_recipe_default cfg = ''lastUsed'' \<and> previousLanguageId b = Some languageId
                     \<and> previouslyUsedRecipe b \<noteq> None
                  then previouslyUsedRecipe b
                  else first (languageCandidates languageId (latex_recipes cfg))) of
              None \<Rightarrow> None
            | Some recipe \<Rightarrow>
                Some (map (\<lambda>step. snd (prepareStep h cfg (isMiktex b) rootFile step))
                        (snd (expandTools (latex_tools cfg) (recipe_name recipe) (recipe_tools recipe)))))"
proof -
  obtain magicLog magicTex magicBib
    where fm: "findProgramMagic h rootFile = (magicLog, magicTex, magicBib)"
    by (cases "findProgramMagic h rootFile") auto
  have dir: "directiveInForce cfg recipeName magicTex = None"
    using directiveInForce_None [OF assms(2)] fm by simp
  define report where "report = [Log (''Failed to resolve build recipe: '' @ n),
                                 ShowError (''Failed to resolve build recipe: '' @ n)]"
  define b1 where "b1 = emit report (if previousLanguageId (emit magicLog b) \<noteq> Some languageId
                          then (emit magicLog b)\<lparr>previouslyUsedRecipe := None\<rparr> else emit magicLog b)"
  obtain b2 chosen where fb: "recipeFallback cfg languageId (Some n) b1 = (b2, chosen)"
    by (cases "recipeFallback cfg languageId (Some n) b1") auto
  have choose: "chooseRecipe cfg languageId recipeName (emit magicLog b) = (b2, chosen)"
    using chooseRecipe_missing [OF assms(3,4,5)] fb by (simp add: b1_def report_def)
  have tr1: "\<exists>es. trace b1 = trace b @ magicLog @ report @ es"
    by (simp add: b1_def)
  obtain es2 where tr2: "trace b2 = trace b1 @ es2"
    using recipeFallback_state(1) [of cfg languageId "Some n" b1] fb by auto
  have mik: "isMiktex b2 = isMiktex b"
    using recipeFallback_state(2) [of cfg languageId "Some n" b1] fb by (simp add: b1_def)
  have chosen: "chosen = (if latex_recipe_default cfg = ''lastUsed'' \<and> previousLanguageId b = Some languageId
                     \<and> previouslyUsedRecipe b \<noteq> None
                  then previouslyUsedRecipe b
                  else first (languageCandidates languageId (latex_recipes cfg)))"
    using snd_recipeFallback [of cfg languageId "Some n" b1] fb by (auto simp: b1_def)
  have cs: "createSteps h cfg rootFile languageId recipeName b =
              (case chosen of None \<Rightarrow> (b2, None)
               | Some recipe \<Rightarrow>
                   (let b3 = b2\<lparr>previouslyUsedRecipe := Some recipe, previousLanguageId := Some languageId\<rparr>;
                        (toolLog, steps) = expandTools (latex_tools cfg) (recipe_name recipe) (recipe_tools recipe)
                    in finishSteps h cfg rootFile steps (emit toolLog b3)))"
    using assms(1) by (simp add: createSteps_def fm dir choose split: option.splits)
  have in_b2: "set report \<subseteq> set (trace b2)"
    using tr1 tr2 by auto
  have in_result: "set report \<subseteq> set (trace (fst (createSteps h cfg rootFile languageId recipeName b)))"
  proof (cases chosen)
    case None
    then show ?thesis using cs in_b2 by simp
  next
    case (Some recipe)
    obtain toolLog steps where et: "expandTools (latex_tools cfg) (recipe_name recipe) (recipe_tools recipe) = (toolLog, steps)"
      by (cases "expandTools (latex_tools cfg) (recipe_name recipe) (recipe_tools recipe)") auto
    obtain es3 where "trace (fst (finishSteps h cfg rootFile steps
                        (emit toolLog (b2\<lparr>previouslyUsedRecipe := Some recipe, previousLanguageId := Some languageId\<rparr>))))
                      = trace b2 @ toolLog @ es3"
      using finishSteps_state [of h cfg rootFile steps
               "emit toolLog (b2\<lparr>previouslyUsedRecipe := Some recipe, previousLanguageId := Some languageId\<rparr>)"]
      by auto
    then show ?thesis using cs Some et in_b2 by auto
  qed
  have steps: "snd (createSteps h cfg rootFile languageId recipeName b) =
           (case chosen of None \<Rightarrow> None
            | Some recipe \<Rightarrow>
                Some (map (\<lambda>step. snd (prepareStep h cfg (isMiktex b) rootFile step))
                        (snd (expandTools (latex_tools cfg) (recipe_name recipe) (recipe_tools recipe)))))"
    by (simp add: cs snd_finishSteps snd_prepareSteps mik Let_def split: option.splits prod.splits)
  show ?thesis
    using in_result steps by (simp add: report_def chosen)
qed

theorem missing_recipe_falls_back_witness:
  "Log ''Failed to resolve build recipe: nonexistent''
     \<in> set (trace (fst (createSteps (host_with ''text'') (config_with [recipe_pdflatex] [tool_pdflatex] ''first'')
          ''/project/main.tex'' ''latex'' (Some ''nonexistent'') new_builder)))
   \<and> ShowError ''Failed to resolve build recipe: nonexistent''
     \<in> set (trace (fst (createSteps (host_with ''text'') (config_with [recipe_pdflatex] [tool_pdflatex] ''first'')
          ''/project/main.tex'' ''latex'' (Some ''nonexistent'') new_builder)))
   \<and> snd (createSteps (host_with ''text'') (config_with [recipe_pdflatex] [tool_pdflatex] ''first'')
          ''/project/main.tex'' ''latex'' (Some ''nonexistent'') new_builder) =
     Some [\<lparr>name = ''pdflatex'', command = ''pdflatex'', args = Some [''/project/main''], env = None\<rparr>]"
proof -
  let ?cfg = "config_with [recipe_pdflatex] [tool_pdflatex] ''first''"
  have a1: "latex_recipes ?cfg \<noteq> []" by (simp add: config_with_def)
  have a2: "Some ''nonexistent'' \<noteq> None \<or> latex_build_forceRecipeUsage ?cfg \<or>
            js_match (readFileSync (host_with ''text'') ''/project/main.tex'') regexTex = None" by simp
  have a3: "requestedName ?cfg (Some ''nonexistent'') = Some ''nonexistent''"
    by (simp add: requestedName_def truthy_def)
  have a4: "''nonexistent'' \<noteq> []" by simp
  have a5: "\<forall>r \<in> set (latex_recipes ?cfg). recipe_name r \<noteq> ''nonexistent''"
    by (simp add: config_with_def recipe_pdflatex_def)
  show ?thesis
    using missing_recipe_falls_back [OF a1 a2 a3 a4 a5, of "''latex''" new_builder]
    by (simp add: config_with_def recipe_pdflatex_def tool_pdflatex_def new_builder_def first_def
          languageCandidates_def prepareStep_def host_with_def Let_def)
qed

section \<open>Properties of the execution of steps\<close>

lemma buildStep_no_steps:
  "buildStep h cfg outcome rootFile [] 0 recipeName b =
     Inl (TypeError, emit [ClearCompilerMessage, Status ''sync~spin'' ('' '' @ recipeName)] b)"
  by (simp add: buildStep.simps startStep_def progressString_def)

text \<open>
  C7. A recipe whose every tool reference is undefined is resolved to the empty step list,
  which is not a failure of the resolver; but \<^verbatim>\<open>buildInitiator\<close> then calls
  \<^verbatim>\<open>buildStep\<close> at index 0, which reads \<^verbatim>\<open>steps[0].command\<close> (line 250) past the end
  of the empty array and throws a TypeError.
\<close>

theorem empty_step_list_is_read:
  "snd (createSteps (host_with ''text'') (config_with [recipe_undefined_tool] [tool_pdflatex] ''first'')
          ''/project/main.tex'' ''latex'' None new_builder) = Some []
   \<and> thrown (build (host_with ''text'') (config_with [recipe_undefined_tool] [tool_pdflatex] ''first'')
          always_succeeds ''/project/main.tex'' ''latex'' None new_builder) = Some TypeError"
  by code_simp

text \<open>
  C9 (as amended). A step named exactly \<^verbatim>\<open>TeXMagicProgram\<close> or \<^verbatim>\<open>BibMagicProgram\<close> is run
  through a shell, and its command line is the command followed by a space and the first
  element only of the argument array (the text \<^verbatim>\<open>undefined\<close> for an empty array, the
  command alone without an array); further elements are ignored. A step whose name has
  the suffix \<^verbatim>\<open>WithArgs\<close> is run without a shell and gets its whole argument array.
\<close>

theorem magic_step_command_line:
  "(name step = texMagicProgramName \<or> name step = bibMagicProgramName \<longrightarrow>
      spawnCall h rootFile step =
        Shell (command step @ (case args step of None \<Rightarrow> []
                               | Some [] \<Rightarrow> '' undefined''
                               | Some (a # rest) \<Rightarrow> '' '' @ a))
              (dirname h rootFile) (stepEnvVars h step))
   \<and> (name step = texMagicProgramName @ ''WithArgs'' \<or> name step = bibMagicProgramName @ ''WithArgs'' \<longrightarrow>
      spawnCall h rootFile step =
        Argv (command step) (args step) (spawnCwd (spawnCall h rootFile step)) (stepEnvVars h step))"
  by (auto simp: spawnCall_def spawnCwd_def interpolate_def first_def texMagicProgramName_def
        bibMagicProgramName_def split: option.splits list.splits)

theorem magic_step_command_line_witness:
  "spawnCall (host_with ''text'') ''/project/main.tex''
      \<lparr>name = ''TeXMagicProgram'', command = ''xelatex'', args = Some [''-shell-escape -synctex=1'', ''ignored''], env = None\<rparr>
     = Shell ''xelatex -shell-escape -synctex=1'' ''/project''
         [(''PATH'', ''/usr/bin''), (''HOME'', ''/home/user''), (''max_print_line'', ''10000'')]
   \<and> spawnCall (host_with ''text'') ''/project/main.tex''
      \<lparr>name = ''BibMagicProgramWithArgs'', command = ''biber'', args = Some [''--quiet'', ''main''], env = None\<rparr>
     = Argv ''biber'' (Some [''--quiet'', ''main'']) ''/project''
         [(''PATH'', ''/usr/bin''), (''HOME'', ''/home/user''), (''max_print_line'', ''10000'')]"
  using magic_step_command_line [of "\<lparr>name = ''TeXMagicProgram'', command = ''xelatex'', args = Some [''-shell-escape -synctex=1'', ''ignored''], env = None\<rparr>"
           "host_with ''text''" "''/project/main.tex''"]
        magic_step_command_line [of "\<lparr>name = ''BibMagicProgramWithArgs'', command = ''biber'', args = Some [''--quiet'', ''main''], env = None\<rparr>"
           "host_with ''text''" "''/project/main.tex''"]
  by (simp add: texMagicProgramName_def bibMagicProgramName_def spawnCwd_def spawnCall_def
        stepEnvVars_def inheritedEnv_def host_with_def maxPrintLine_def)

text \<open>C9 as stated fails for the suffixed names: the step of a directive without options,
  which carries the configured default arguments, is spawned with all of them.\<close>

theorem magic_with_args_counterexample:
  "spawnCall (host_with content_tex) ''/project/main.tex''
      \<lparr>name = ''TeXMagicProgramWithArgs'', command = ''xelatex'',
        args = Some [''-synctex=1'', ''-interaction=nonstopmode'', ''/project/main''], env = None\<rparr>
     = Argv ''xelatex'' (Some [''-synctex=1'', ''-interaction=nonstopmode'', ''/project/main'']) ''/project''
         [(''PATH'', ''/usr/bin''), (''HOME'', ''/home/user''), (''max_print_line'', ''10000'')]"
  by code_simp

lemma map_of_override:
  "map_of (fold (\<lambda>key acc. case map_of ce key of None \<Rightarrow> acc | Some v \<Rightarrow> AList.update key v acc) ks e0) k =
     (if k \<in> set ks \<and> map_of ce k \<noteq> None then map_of ce k else map_of e0 k)"
  by (induction ks arbitrary: e0) (auto simp: update_conv' split: option.splits)

lemma inheritedEnv_override:
  assumes "env step = Some currentEnv" and "map_of currentEnv key = Some v"
  shows "map_of (inheritedEnv h step) key = Some v"
proof -
  have "key \<in> set (map fst currentEnv)"
    using map_of_SomeD [OF assms(2)] by force
  then show ?thesis
    by (simp add: inheritedEnv_def assms map_of_override)
qed

text \<open>
  C10. The synchronous part of \<^verbatim>\<open>buildStep\<close> spawns exactly one process, and under every
  configuration (so whether or not \<^verbatim>\<open>latex.option.maxPrintLine.enabled\<close> is set) the
  environment of that process has \<^verbatim>\<open>max_print_line\<close> set to \<^verbatim>\<open>10000\<close>, and every
  other key that the step overrides has the value of the step, whatever the inherited
  process environment has for it.
\<close>

theorem spawned_environment:
  assumes "startStep h cfg rootFile steps index recipeName b = Inr b'"
  shows "filter isSpawn (trace b') = filter isSpawn (trace b) @ [Spawn (spawnCall h rootFile (steps ! index))]
     \<and> map_of (spawnEnv (spawnCall h rootFile (steps ! index))) ''max_print_line'' = Some ''10000''
     \<and> (\<forall>currentEnv key v. env (steps ! index) = Some currentEnv \<and> key \<noteq> ''max_print_line''
            \<and> map_of currentEnv key = Some v
          \<longrightarrow> map_of (spawnEnv (spawnCall h rootFile (steps ! index))) key = Some v)"
proof -
  have env: "spawnEnv (spawnCall h rootFile (steps ! index)) = stepEnvVars h (steps ! index)"
    by (simp add: spawnEnv_def spawnCall_def)
  have spawn: "filter isSpawn (trace b') = filter isSpawn (trace b) @ [Spawn (spawnCall h rootFile (steps ! index))]"
    using assms unfolding startStep_def Let_def
    by (auto simp: isSpawn_def split: sum.splits if_splits)
  have mpl: "map_of (stepEnvVars h (steps ! index)) ''max_print_line'' = Some ''10000''"
    by (simp add: stepEnvVars_def update_conv' maxPrintLine_def)
  have over: "map_of (stepEnvVars h (steps ! index)) key = Some v"
    if "env (steps ! index) = Some currentEnv" "key \<noteq> ''max_print_line''" "map_of currentEnv key = Some v"
    for currentEnv key v
    using inheritedEnv_override [OF that(1) that(3), of h] that(2)
    by (simp add: stepEnvVars_def update_conv')
  show ?thesis
    using spawn mpl over by (simp add: env)
qed

theorem spawned_environment_witness:
  "map_of (spawnEnv (spawnCall (host_with ''text'') ''/project/main.tex'' ([tool_latexmk_env] ! 0)))
         ''max_print_line'' = Some ''10000''
   \<and> map_of (spawnEnv (spawnCall (host_with ''text'') ''/project/main.tex'' ([tool_latexmk_env] ! 0)))
         ''PATH'' = Some ''/opt/texlive/bin''"
proof -
  have "\<exists>b'. startStep (host_with ''text'') (config_with [] [] ''first'') ''/project/main.tex''
                [tool_latexmk_env] 0 ''Build'' new_builder = Inr b'"
    by (simp add: startStep_def progressString_def Let_def)
  then obtain b' where st: "startStep (host_with ''text'') (config_with [] [] ''first'') ''/project/main.tex''
                [tool_latexmk_env] 0 ''Build'' new_builder = Inr b'" ..
  have over: "env ([tool_latexmk_env] ! 0) = Some [(''PATH'', ''/opt/texlive/bin''), (''max_print_line'', ''80'')]
      \<and> ''PATH'' \<noteq> ''max_print_line''
      \<and> map_of [(''PATH'', ''/opt/texlive/bin''), (''max_print_line'', ''80'')] ''PATH'' = Some ''/opt/texlive/bin''"
    by (simp add: tool_latexmk_env_def)
  note se = spawned_environment [OF st]
  from se [THEN conjunct2, THEN conjunct1]
       se [THEN conjunct2, THEN conjunct2, rule_format, OF over]
  show ?thesis by simp
qed

lemma retries_emit [simp]:
  "retries (emit es b) = retries b + length (filter (\<lambda>e. e = retryStatus) es)"
  by (simp add: retries_def)

lemma releases_emit [simp]:
  "releases (emit es b) = releases b + length (filter (\<lambda>e. e = ReleaseBuildMutex) es)"
  by (simp add: releases_def)

lemma counters_update [simp]:
  "retries (b\<lparr>currentProcess := p\<rparr>) = retries b"
  "retries (b\<lparr>spawned := n\<rparr>) = retries b"
  "retries (b\<lparr>disableCleanAndRetry := g\<rparr>) = retries b"
  "releases (b\<lparr>currentProcess := p\<rparr>) = releases b"
  "releases (b\<lparr>spawned := n\<rparr>) = releases b"
  "releases (b\<lparr>disableCleanAndRetry := g\<rparr>) = releases b"
  by (simp_all add: retries_def releases_def)

lemma startStep_Inl:
  assumes "startStep h cfg rootFile steps index recipeName b = Inl (e, b')"
  shows "retries b' = retries b" and "releases b' = releases b" and "spawned b' = spawned b"
    and "disableCleanAndRetry b' = disableCleanAndRetry b"
  using assms unfolding startStep_def Let_def
  by (auto simp: retryStatus_def split: sum.splits if_splits)

lemma startStep_Inr_counters:
  assumes "startStep h cfg rootFile steps index recipeName b = Inr b1"
  shows "retries b1 = retries b" and "releases b1 = releases b" and "spawned b1 = spawned b + 1"
  using assms unfolding startStep_def Let_def
  by (auto simp: retryStatus_def split: sum.splits if_splits)

lemma startStep_in_range:
  assumes "index < length steps"
  shows "\<exists>b1. startStep h cfg rootFile steps index recipeName b = Inr b1"
  using assms by (simp add: startStep_def progressString_def Let_def)

lemma end_of_step [simp]:
  "retries (stepError h st msg b) = retries b"
  "retries (stepFailedLog h st b) = retries b"
  "retries (stepKilled b) = retries b"
  "retries (stepFailed cfg b) = retries b"
  "retries (recipeFinished h cfg rootFile b) = retries b"
  "retries (retryNotice b) = retries b + 1"
  "disableCleanAndRetry (stepFailedLog h st b) = disableCleanAndRetry b"
  "disableCleanAndRetry (retryNotice b) = disableCleanAndRetry b"
  by (auto simp: stepError_def stepFailedLog_def stepKilled_def stepFailed_def recipeFinished_def
        buildFinished_def retryNotice_def releaseBuildMutex_def retryStatus_def Let_def
        split: sum.splits prod.splits)

lemma final_detached [simp]:
  "retries (final (detached r)) = retries (final r)"
  "thrown (detached r) = None"
  by (auto simp: detached_def final_def thrown_def retryStatus_def split: sum.splits)

lemma final_simps [simp]: "final (Inr b) = b" "final (Inl (e, b)) = b"
  by (simp_all add: final_def)


lemma buildStep_retries:
  "retries (final (buildStep h cfg outcome rootFile steps index recipeName b))
     \<le> retries b + (if disableCleanAndRetry b then 0 else 1)"
proof (induction h cfg outcome rootFile steps index recipeName b rule: buildStep.induct)
  case (1 h cfg outcome rootFile steps index recipeName b)
  show ?case
  proof (cases "startStep h cfg rootFile steps index recipeName b")
    case (Inl t)
    obtain e b' where t: "t = (e, b')" by (cases t)
    show ?thesis
      using startStep_Inl(1) [of h cfg rootFile steps index recipeName b e b'] Inl t
      by (subst buildStep.simps) simp
  next
    case (Inr b1)
    note r1 = startStep_Inr_counters(1) [OF Inr] and g1 = startStep_Inr(1) [OF Inr]
    show ?thesis
    proof (cases "outcome (spawned b)")
      case (ProcError msg)
      then show ?thesis using Inr r1 by (subst buildStep.simps) simp
    next
      case (ProcExit exitCode signal)
      let ?b2 = "emit [ParseCompilerLog] b1"
      let ?b3 = "stepFailedLog h (steps ! index) ?b2"
      have rb2: "retries ?b2 = retries b" using r1 by (simp add: retryStatus_def)
      consider (retry) "exitCode \<noteq> Some 0" "\<not> disableCleanAndRetry b" "latex_autoBuild_cleanAndRetry_enabled cfg"
                 "signal \<noteq> Some ''SIGTERM''"
        | (killed) "exitCode \<noteq> Some 0" "\<not> disableCleanAndRetry b" "latex_autoBuild_cleanAndRetry_enabled cfg"
                 "signal = Some ''SIGTERM''"
        | (failed) "exitCode \<noteq> Some 0" "disableCleanAndRetry b \<or> \<not> latex_autoBuild_cleanAndRetry_enabled cfg"
        | (last) "exitCode = Some 0" "int index = int (length steps) - 1"
        | (more) "exitCode = Some 0" "int index \<noteq> int (length steps) - 1"
        by blast
      then show ?thesis
      proof cases
        case retry
        have ih: "retries (final (buildStep h cfg outcome rootFile steps 0 recipeName
                     (retryNotice (?b3\<lparr>disableCleanAndRetry := True\<rparr>))))
                  \<le> retries (retryNotice (?b3\<lparr>disableCleanAndRetry := True\<rparr>)) + 0"
          using "1.IH"(1) [OF Inr ProcExit refl retry(1) refl _ refl retry(4)] retry(2,3) g1
          by simp
        show ?thesis
          using Inr ProcExit retry g1 ih rb2
          by (subst buildStep.simps) (simp add: Let_def)
      next
        case killed
        then show ?thesis using Inr ProcExit g1 rb2 by (subst buildStep.simps) (simp add: Let_def)
      next
        case failed
        then show ?thesis using Inr ProcExit g1 rb2 by (subst buildStep.simps) (auto simp: Let_def)
      next
        case last
        then show ?thesis using Inr ProcExit g1 rb2 by (subst buildStep.simps) (simp add: Let_def)
      next
        case more
        have ih: "retries (final (buildStep h cfg outcome rootFile steps (index + 1) recipeName
                     (emit [Log ''A step in recipe finished.''] ?b2)))
                  \<le> retries (emit [Log ''A step in recipe finished.''] ?b2)
                     + (if disableCleanAndRetry (emit [Log ''A step in recipe finished.''] ?b2) then 0 else 1)"
          using "1.IH"(2) [OF Inr ProcExit refl _ more(2)] more(1) by simp
        show ?thesis
          using Inr ProcExit more g1 ih rb2
          by (subst buildStep.simps) (simp add: Let_def retryStatus_def)
      qed
    qed
  qed
qed

lemma reportedSince_refl [simp]: "reportedSince b b"
  by (simp add: reportedSince_def)

lemma reportedSince_trans:
  "reportedSince b b' \<Longrightarrow> reportedSince b' b'' \<Longrightarrow> reportedSince b b''"
  by (auto simp: reportedSince_def)

lemma reportedSince_emit:
  "\<forall>e \<in> set es. isReport e \<Longrightarrow> reportedSince b (emit es b)"
  by (simp add: reportedSince_def)

lemma reportedSince_memory:
  "reportedSince b (b\<lparr>previouslyUsedRecipe := r\<rparr>)"
  "reportedSince b (b\<lparr>previouslyUsedRecipe := r, previousLanguageId := l\<rparr>)"
  by (simp_all add: reportedSince_def)

lemma reportedSince_counters:
  assumes "reportedSince b b'"
  shows "retries b' = retries b" and "releases b' = releases b"
    and "filter isSpawn (trace b') = filter isSpawn (trace b)"
proof -
  obtain es where es: "trace b' = trace b @ es" "\<forall>e \<in> set es. isReport e"
    using assms by (auto simp: reportedSince_def)
  have "filter (\<lambda>e. e = retryStatus) es = []" "filter (\<lambda>e. e = ReleaseBuildMutex) es = []"
       "filter isSpawn es = []"
    using es(2) by (auto simp: filter_empty_conv isReport_def retryStatus_def isSpawn_def split: event.splits)
  then show "retries b' = retries b" "releases b' = releases b"
       "filter isSpawn (trace b') = filter isSpawn (trace b)"
    by (simp_all add: retries_def releases_def es(1))
qed

lemma findProgramMagic_reports: "\<forall>e \<in> set (fst (findProgramMagic h rootFile)). isReport e"
  by (auto simp: findProgramMagic_def magicCommand_def Let_def isReport_def split: option.splits prod.splits)

lemma recipeByName_reports: "reportedSince b (fst (recipeByName recipes recipeName b))"
  by (simp add: recipeByName_def Let_def reportedSince_emit isReport_def)

lemma recipeFallback_reports: "reportedSince b (fst (recipeFallback cfg languageId recipeName b))"
  by (simp add: recipeFallback_def Let_def reportedSince_emit isReport_def)

lemma chooseRecipe_reports: "reportedSince b (fst (chooseRecipe cfg languageId recipeName b))"
proof -
  let ?b1 = "if previousLanguageId b \<noteq> Some languageId then b\<lparr>previouslyUsedRecipe := None\<rparr> else b"
  have s1: "reportedSince b ?b1" by (simp add: reportedSince_memory)
  obtain b2 r where rb: "recipeByName (latex_recipes cfg) (requestedName cfg recipeName) ?b1 = (b2, r)"
    by (cases "recipeByName (latex_recipes cfg) (requestedName cfg recipeName) ?b1") auto
  have s2: "reportedSince ?b1 b2"
    using recipeByName_reports [of ?b1 "latex_recipes cfg" "requestedName cfg recipeName"] rb by simp
  have s3: "reportedSince b2 (fst (recipeFallback cfg languageId (requestedName cfg recipeName) b2))"
    by (rule recipeFallback_reports)
  show ?thesis
  proof (cases r)
    case None
    then show ?thesis
      using reportedSince_trans [OF reportedSince_trans [OF s1 s2] s3] rb
      by (simp add: chooseRecipe_def Let_def)
  next
    case (Some recipe)
    then show ?thesis
      using reportedSince_trans [OF s1 s2] rb by (simp add: chooseRecipe_def Let_def)
  qed
qed

lemma expandTools_reports: "\<forall>e \<in> set (fst (expandTools tools rname ts)). isReport e"
  by (induction tools rname ts rule: expandTools.induct)
     (auto simp: isReport_def split: prod.splits list.splits)

lemma prepareStep_reports: "\<forall>e \<in> set (fst (prepareStep h cfg miktex rootFile st)). isReport e"
  by (auto simp: prepareStep_def Let_def isReport_def split: prod.splits if_splits)

lemma prepareSteps_reports: "\<forall>e \<in> set (fst (prepareSteps h cfg miktex rootFile steps)). isReport e"
proof (induction steps)
  case Nil
  show ?case by simp
next
  case (Cons st steps)
  then show ?case
    using prepareStep_reports [of h cfg miktex rootFile st] by (auto split: prod.splits)
qed

lemma finishSteps_reports: "reportedSince b (fst (finishSteps h cfg rootFile steps b))"
  using prepareSteps_reports [of h cfg "isMiktex b" rootFile steps]
  by (auto simp: finishSteps_def reportedSince_emit split: prod.splits)

lemma createSteps_reports:
  "reportedSince b (fst (createSteps h cfg rootFile languageId recipeName b))"
proof -
  obtain magicLog magicTex magicBib
    where fm: "findProgramMagic h rootFile = (magicLog, magicTex, magicBib)"
    by (cases "findProgramMagic h rootFile") auto
  have s0: "reportedSince b (emit magicLog b)"
    using findProgramMagic_reports [of h rootFile] fm by (simp add: reportedSince_emit)
  show ?thesis
  proof (cases "directiveInForce cfg recipeName magicTex")
    case (Some tex)
    then show ?thesis
      using reportedSince_trans [OF s0 finishSteps_reports [of "emit magicLog b" h cfg rootFile "magicSteps cfg tex magicBib"]]
      by (simp add: createSteps_def fm)
  next
    case None
    show ?thesis
    proof (cases "length (latex_recipes cfg) < 1")
      case True
      have "reportedSince (emit magicLog b)
              (emit [Log ''No recipes defined.'', ShowError ''No recipes defined.''] (emit magicLog b))"
        by (rule reportedSince_emit) (simp add: isReport_def)
      from reportedSince_trans [OF s0 this] show ?thesis
        using None True by (simp add: createSteps_def fm)
    next
      case False
      obtain b1 chosen where ch: "chooseRecipe cfg languageId recipeName (emit magicLog b) = (b1, chosen)"
        by (cases "chooseRecipe cfg languageId recipeName (emit magicLog b)") auto
      have s1: "reportedSince b b1"
        using reportedSince_trans [OF s0 chooseRecipe_reports [of "emit magicLog b" cfg languageId recipeName]] ch
        by simp
      show ?thesis
      proof (cases chosen)
        case None': None
        then show ?thesis using None False ch s1 by (simp add: createSteps_def fm)
      next
        case (Some recipe)
        obtain toolLog steps
          where et: "expandTools (latex_tools cfg) (recipe_name recipe) (recipe_tools recipe) = (toolLog, steps)"
          by (cases "expandTools (latex_tools cfg) (recipe_name recipe) (recipe_tools recipe)") auto
        let ?b2 = "b1\<lparr>previouslyUsedRecipe := Some recipe, previousLanguageId := Some languageId\<rparr>"
        have s2: "reportedSince b1 ?b2" by (rule reportedSince_memory)
        have s3: "reportedSince ?b2 (emit toolLog ?b2)"
          using expandTools_reports [of "latex_tools cfg" "recipe_name recipe" "recipe_tools recipe"] et
          by (simp add: reportedSince_emit)
        have s4: "reportedSince (emit toolLog ?b2) (fst (finishSteps h cfg rootFile steps (emit toolLog ?b2)))"
          by (rule finishSteps_reports)
        from reportedSince_trans [OF reportedSince_trans [OF reportedSince_trans [OF s1 s2] s3] s4]
        show ?thesis
          using None False ch Some et by (simp add: createSteps_def fm)
      qed
    qed
  qed
qed

lemma buildStep_retry:
  assumes "startStep h cfg rootFile steps index recipeName b = Inr b1"
      and "outcome (spawned b) = ProcExit exitCode signal" and "exitCode \<noteq> Some 0"
      and "latex_autoBuild_cleanAndRetry_enabled cfg" and "\<not> disableCleanAndRetry b"
      and "signal \<noteq> Some ''SIGTERM''"
  shows "buildStep h cfg outcome rootFile steps index recipeName b =
           detached (buildStep h cfg outcome rootFile steps 0 recipeName
             (retryNotice ((stepFailedLog h (steps ! index) (emit [ParseCompilerLog] b1))
                             \<lparr>disableCleanAndRetry := True\<rparr>)))"
  using assms startStep_Inr(1) [OF assms(1)]
  by (subst buildStep.simps) (simp add: Let_def)

lemma buildStep_fails_guarded:
  assumes "startStep h cfg rootFile steps index recipeName b = Inr b1"
      and "outcome (spawned b) = ProcExit exitCode signal" and "exitCode \<noteq> Some 0"
      and "disableCleanAndRetry b"
  shows "buildStep h cfg outcome rootFile steps index recipeName b =
           Inr (stepFailed cfg (stepFailedLog h (steps ! index) (emit [ParseCompilerLog] b1)))"
  using assms startStep_Inr(1) [OF assms(1)]
  by (subst buildStep.simps) (simp add: Let_def)

lemma step_counters [simp]:
  "releases (stepFailedLog h st b) = releases b"
  "releases (retryNotice b) = releases b"
  "releases (stepFailed cfg b) = releases b + 1"
  "spawned (stepFailedLog h st b) = spawned b"
  "spawned (retryNotice b) = spawned b"
  "spawned (stepFailed cfg b) = spawned b"
  by (simp_all add: stepFailedLog_def retryNotice_def stepFailed_def releaseBuildMutex_def)

lemma buildStep_always_failing:
  assumes "steps \<noteq> []"
      and "\<forall>n. \<exists>exitCode signal. outcome n = ProcExit exitCode signal \<and> exitCode \<noteq> Some 0
                                  \<and> signal \<noteq> Some ''SIGTERM''"
      and "latex_autoBuild_cleanAndRetry_enabled cfg" and "\<not> disableCleanAndRetry b"
  shows "\<exists>b'. buildStep h cfg outcome rootFile steps 0 recipeName b = Inr (stepFailed cfg b')
           \<and> retries (stepFailed cfg b') = retries b + 1
           \<and> spawned (stepFailed cfg b') = spawned b + 2
           \<and> releases (stepFailed cfg b') = releases b + 1"
proof -
  have range: "0 < length steps" using assms(1) by simp
  obtain b1 where s1: "startStep h cfg rootFile steps 0 recipeName b = Inr b1"
    using startStep_in_range [OF range] by blast
  obtain ec1 sig1 where o1: "outcome (spawned b) = ProcExit ec1 sig1" "ec1 \<noteq> Some 0" "sig1 \<noteq> Some ''SIGTERM''"
    using assms(2) by blast
  let ?bR = "retryNotice ((stepFailedLog h (steps ! 0) (emit [ParseCompilerLog] b1))\<lparr>disableCleanAndRetry := True\<rparr>)"
  have first: "buildStep h cfg outcome rootFile steps 0 recipeName b =
                 detached (buildStep h cfg outcome rootFile steps 0 recipeName ?bR)"
    by (rule buildStep_retry [where outcome = outcome, OF s1 o1(1) o1(2) assms(3) assms(4) o1(3)])
  obtain b2 where s2: "startStep h cfg rootFile steps 0 recipeName ?bR = Inr b2"
    using startStep_in_range [OF range] by blast
  obtain ec2 sig2 where o2: "outcome (spawned ?bR) = ProcExit ec2 sig2" "ec2 \<noteq> Some 0"
    using assms(2) by blast
  have guard: "disableCleanAndRetry ?bR" by simp
  let ?b' = "stepFailedLog h (steps ! 0) (emit [ParseCompilerLog] b2)"
  have second: "buildStep h cfg outcome rootFile steps 0 recipeName ?bR = Inr (stepFailed cfg ?b')"
    by (rule buildStep_fails_guarded [where outcome = outcome, OF s2 o2(1) o2(2) guard])
  have res: "buildStep h cfg outcome rootFile steps 0 recipeName b = Inr (stepFailed cfg ?b')"
    by (simp add: first second detached_def)
  note c1 = startStep_Inr_counters [OF s1] and c2 = startStep_Inr_counters [OF s2]
  have "retries (stepFailed cfg ?b') = retries b + 1"
    using c1(1) c2(1) by (simp add: retryStatus_def)
  moreover have "spawned (stepFailed cfg ?b') = spawned b + 2"
    using c1(3) c2(3) by simp
  moreover have "releases (stepFailed cfg ?b') = releases b + 1"
    using c1(2) c2(2) by simp
  ultimately show ?thesis using res by blast
qed

lemma buildInitiator_retries:
  assumes "\<not> disableCleanAndRetry b"
  shows "retries (final (buildInitiator h cfg outcome rootFile languageId recipeName b)) \<le> retries b + 1"
proof -
  obtain b1 resolved where cs: "createSteps h cfg rootFile languageId recipeName b = (b1, resolved)"
    by (cases "createSteps h cfg rootFile languageId recipeName b") auto
  have rs: "reportedSince b b1"
    using createSteps_reports [of b h cfg rootFile languageId recipeName] cs by simp
  have r1: "retries b1 = retries b" by (rule reportedSince_counters(1) [OF rs])
  have g1: "\<not> disableCleanAndRetry b1" using rs assms by (simp add: reportedSince_def)
  show ?thesis
  proof (cases resolved)
    case None
    then show ?thesis using cs r1 by (simp add: buildInitiator_def retryStatus_def)
  next
    case (Some steps)
    then show ?thesis
      using cs r1 g1
        buildStep_retries [of h cfg outcome rootFile steps 0
          "case recipeName of None \<Rightarrow> ''Build'' | Some n \<Rightarrow> if n \<noteq> [] then n else ''Build''" b1]
      by (simp add: buildInitiator_def)
  qed
qed

lemma build_retries:
  "retries (final (build h cfg outcome rootFile languageId recipeName b)) \<le> retries b + 1"
proof -
  let ?b1 = "emit [Status ''sync~spin'' [], Log (''Build root file '' @ rootFile),
                   Log (''outDir: '' @ outDirOf h rootFile)] (b\<lparr>disableCleanAndRetry := False\<rparr>)"
  have r1: "retries ?b1 = retries b" by (simp add: retryStatus_def)
  have g1: "\<not> disableCleanAndRetry ?b1" by simp
  show ?thesis
  proof (cases "outDirSetupFails h")
    case True
    then show ?thesis
      using r1 by (simp add: build_def Let_def releaseBuildMutex_def retryStatus_def)
  next
    case False
    note bi = buildInitiator_retries [OF g1, of h cfg outcome rootFile languageId recipeName]
    show ?thesis
    proof (cases "buildInitiator h cfg outcome rootFile languageId recipeName ?b1")
      case (Inl t)
      obtain e b' where t: "t = (e, b')" by (cases t)
      show ?thesis
        using bi Inl t False r1
        by (simp add: build_def Let_def releaseBuildMutex_def retryStatus_def)
    next
      case (Inr b')
      then show ?thesis
        using bi False r1 by (simp add: build_def Let_def)
    qed
  qed
qed

text \<open>
  C2. In every build attempt (a call of \<^verbatim>\<open>build\<close>, which unsets the retry guard at line
  199) at most one clean-and-retry cycle is started. A non-zero exit of a step with the
  policy enabled, the guard unset and a signal other than \<^verbatim>\<open>SIGTERM\<close> sets the guard and
  restarts the whole recipe at step 0, not at the failed step. A non-zero exit with the
  guard set ends the attempt in the failed state (lines 331-337), with no further retry.
  So a recipe whose steps always fail is retried exactly once, spawns two processes and
  ends in the failed state, the build mutex released once; \<open>buildStep\<close> is a total
  function, so the chain of steps always ends.
\<close>

theorem at_most_one_retry:
  "retries (final (build h cfg outcome rootFile languageId recipeName b)) \<le> retries b + 1
   \<and> (\<forall>b1 exitCode signal.
         startStep h cfg rootFile steps index label b = Inr b1
         \<and> outcome (spawned b) = ProcExit exitCode signal \<and> exitCode \<noteq> Some 0
         \<and> latex_autoBuild_cleanAndRetry_enabled cfg \<and> \<not> disableCleanAndRetry b
         \<and> signal \<noteq> Some ''SIGTERM''
       \<longrightarrow> buildStep h cfg outcome rootFile steps index label b =
             detached (buildStep h cfg outcome rootFile steps 0 label
               (retryNotice ((stepFailedLog h (steps ! index) (emit [ParseCompilerLog] b1))
                               \<lparr>disableCleanAndRetry := True\<rparr>))))
   \<and> (\<forall>b1 exitCode signal.
         startStep h cfg rootFile steps index label b = Inr b1
         \<and> outcome (spawned b) = ProcExit exitCode signal \<and> exitCode \<noteq> Some 0
         \<and> disableCleanAndRetry b
       \<longrightarrow> buildStep h cfg outcome rootFile steps index label b =
             Inr (stepFailed cfg (stepFailedLog h (steps ! index) (emit [ParseCompilerLog] b1))))
   \<and> (steps \<noteq> []
        \<and> (\<forall>n. \<exists>exitCode signal. outcome n = ProcExit exitCode signal \<and> exitCode \<noteq> Some 0
                                    \<and> signal \<noteq> Some ''SIGTERM'')
        \<and> latex_autoBuild_cleanAndRetry_enabled cfg \<and> \<not> disableCleanAndRetry b
       \<longrightarrow> (\<exists>b'. buildStep h cfg outcome rootFile steps 0 label b = Inr (stepFailed cfg b')
                \<and> retries (stepFailed cfg b') = retries b + 1
                \<and> spawned (stepFailed cfg b') = spawned b + 2
                \<and> releases (stepFailed cfg b') = releases b + 1))"
proof (intro conjI allI impI)
  show "retries (final (build h cfg outcome rootFile languageId recipeName b)) \<le> retries b + 1"
    by (rule build_retries)
next
  fix b1 exitCode signal
  assume a: "startStep h cfg rootFile steps index label b = Inr b1
         \<and> outcome (spawned b) = ProcExit exitCode signal \<and> exitCode \<noteq> Some 0
         \<and> latex_autoBuild_cleanAndRetry_enabled cfg \<and> \<not> disableCleanAndRetry b
         \<and> signal \<noteq> Some ''SIGTERM''"
  then show "buildStep h cfg outcome rootFile steps index label b =
             detached (buildStep h cfg outcome rootFile steps 0 label
               (retryNotice ((stepFailedLog h (steps ! index) (emit [ParseCompilerLog] b1))
                               \<lparr>disableCleanAndRetry := True\<rparr>)))"
    using buildStep_retry [where outcome = outcome and b = b and ?b1.0 = b1 and exitCode = exitCode and signal = signal]
    by blast
next
  fix b1 exitCode signal
  assume a: "startStep h cfg rootFile steps index label b = Inr b1
         \<and> outcome (spawned b) = ProcExit exitCode signal \<and> exitCode \<noteq> Some 0
         \<and> disableCleanAndRetry b"
  then show "buildStep h cfg outcome rootFile steps index label b =
             Inr (stepFailed cfg (stepFailedLog h (steps ! index) (emit [ParseCompilerLog] b1)))"
    using buildStep_fails_guarded [where outcome = outcome and b = b and ?b1.0 = b1 and exitCode = exitCode and signal = signal]
    by blast
next
  assume a: "steps \<noteq> []
        \<and> (\<forall>n. \<exists>exitCode signal. outcome n = ProcExit exitCode signal \<and> exitCode \<noteq> Some 0
                                    \<and> signal \<noteq> Some ''SIGTERM'')
        \<and> latex_autoBuild_cleanAndRetry_enabled cfg \<and> \<not> disableCleanAndRetry b"
  then have a1: "steps \<noteq> []"
    and a2: "\<forall>n. \<exists>exitCode signal. outcome n = ProcExit exitCode signal \<and> exitCode \<noteq> Some 0
                                    \<and> signal \<noteq> Some ''SIGTERM''"
    and a3: "latex_autoBuild_cleanAndRetry_enabled cfg" and a4: "\<not> disableCleanAndRetry b"
    by simp_all
  show "\<exists>b'. buildStep h cfg outcome rootFile steps 0 label b = Inr (stepFailed cfg b')
                \<and> retries (stepFailed cfg b') = retries b + 1
                \<and> spawned (stepFailed cfg b') = spawned b + 2
                \<and> releases (stepFailed cfg b') = releases b + 1"
    by (rule buildStep_always_failing [OF a1 a2 a3 a4])
qed

theorem at_most_one_retry_witness:
  "retries (final (buildStep (host_with ''text'') (config_with [recipe_pdflatex] [tool_pdflatex] ''first'')
              always_fails ''/project/main.tex'' [tool_pdflatex] 0 ''Build'' new_builder)) = 1
   \<and> spawned (final (buildStep (host_with ''text'') (config_with [recipe_pdflatex] [tool_pdflatex] ''first'')
              always_fails ''/project/main.tex'' [tool_pdflatex] 0 ''Build'' new_builder)) = 2
   \<and> releases (final (buildStep (host_with ''text'') (config_with [recipe_pdflatex] [tool_pdflatex] ''first'')
              always_fails ''/project/main.tex'' [tool_pdflatex] 0 ''Build'' new_builder)) = 1
   \<and> buildStep (host_with ''text'') (config_with [recipe_pdflatex] [tool_pdflatex] ''first'')
              always_fails ''/project/main.tex'' [tool_pdflatex] 0 ''Build'' new_builder =
       detached (buildStep (host_with ''text'') (config_with [recipe_pdflatex] [tool_pdflatex] ''first'')
              always_fails ''/project/main.tex'' [tool_pdflatex] 0 ''Build''
              (retryNotice ((stepFailedLog (host_with ''text'') ([tool_pdflatex] ! 0)
                 (emit [ParseCompilerLog]
                    (projr (startStep (host_with ''text'') (config_with [recipe_pdflatex] [tool_pdflatex] ''first'')
                              ''/project/main.tex'' [tool_pdflatex] 0 ''Build'' new_builder))))
                 \<lparr>disableCleanAndRetry := True\<rparr>)))
   \<and> buildStep (host_with ''text'') (config_with [recipe_pdflatex] [tool_pdflatex] ''first'')
              always_fails ''/project/main.tex'' [tool_pdflatex] 0 ''Build''
              (new_builder\<lparr>disableCleanAndRetry := True\<rparr>) =
       Inr (stepFailed (config_with [recipe_pdflatex] [tool_pdflatex] ''first'')
              (stepFailedLog (host_with ''text'') ([tool_pdflatex] ! 0)
                 (emit [ParseCompilerLog]
                    (projr (startStep (host_with ''text'') (config_with [recipe_pdflatex] [tool_pdflatex] ''first'')
                              ''/project/main.tex'' [tool_pdflatex] 0 ''Build''
                              (new_builder\<lparr>disableCleanAndRetry := True\<rparr>))))))"
proof -
  let ?h = "host_with ''text''" and ?cfg = "config_with [recipe_pdflatex] [tool_pdflatex] ''first''"
  let ?g = "new_builder\<lparr>disableCleanAndRetry := True\<rparr>"
  have enabled: "latex_autoBuild_cleanAndRetry_enabled ?cfg" by (simp add: config_with_def)
  have unset: "\<not> disableCleanAndRetry new_builder" by (simp add: new_builder_def)
  have set: "disableCleanAndRetry ?g" by simp
  have fails: "\<forall>n. \<exists>exitCode signal. always_fails n = ProcExit exitCode signal \<and> exitCode \<noteq> Some 0
                                    \<and> signal \<noteq> Some ''SIGTERM''"
    by (simp add: always_fails_def)
  have out: "always_fails (spawned new_builder) = ProcExit (Some 1) None"
            "always_fails (spawned ?g) = ProcExit (Some 1) None"
    by (simp_all add: always_fails_def)
  have range: "0 < length [tool_pdflatex]" by simp
  obtain b1 where s1: "startStep ?h ?cfg ''/project/main.tex'' [tool_pdflatex] 0 ''Build'' new_builder = Inr b1"
    using startStep_in_range [OF range] by blast
  obtain b2 where s2: "startStep ?h ?cfg ''/project/main.tex'' [tool_pdflatex] 0 ''Build'' ?g = Inr b2"
    using startStep_in_range [OF range] by blast
  note thm1 = at_most_one_retry [of ?h ?cfg always_fails "''/project/main.tex''" "''latex''" None new_builder
                 "[tool_pdflatex]" 0 "''Build''"]
  note thm2 = at_most_one_retry [of ?h ?cfg always_fails "''/project/main.tex''" "''latex''" None ?g
                 "[tool_pdflatex]" 0 "''Build''"]
  from thm1 [THEN conjunct2, THEN conjunct2, THEN conjunct2] fails enabled unset
  obtain b' where r: "buildStep ?h ?cfg always_fails ''/project/main.tex'' [tool_pdflatex] 0 ''Build'' new_builder
                        = Inr (stepFailed ?cfg b')"
      "retries (stepFailed ?cfg b') = retries new_builder + 1"
      "spawned (stepFailed ?cfg b') = spawned new_builder + 2"
      "releases (stepFailed ?cfg b') = releases new_builder + 1"
    by auto
  have zero: "retries new_builder = 0" "spawned new_builder = 0" "releases new_builder = 0"
    by (simp_all add: new_builder_def retries_def releases_def)
  have p1: "buildStep ?h ?cfg always_fails ''/project/main.tex'' [tool_pdflatex] 0 ''Build'' new_builder =
       detached (buildStep ?h ?cfg always_fails ''/project/main.tex'' [tool_pdflatex] 0 ''Build''
              (retryNotice ((stepFailedLog ?h ([tool_pdflatex] ! 0) (emit [ParseCompilerLog] b1))
                 \<lparr>disableCleanAndRetry := True\<rparr>)))"
    using thm1 [THEN conjunct2, THEN conjunct1, rule_format, of b1 "Some 1" None] s1 out(1) enabled unset
    by simp
  have p2: "buildStep ?h ?cfg always_fails ''/project/main.tex'' [tool_pdflatex] 0 ''Build'' ?g =
       Inr (stepFailed ?cfg (stepFailedLog ?h ([tool_pdflatex] ! 0) (emit [ParseCompilerLog] b2)))"
    using thm2 [THEN conjunct2, THEN conjunct2, THEN conjunct1, rule_format, of b2 "Some 1" None] s2 out(2) set
    by simp
  show ?thesis
    using r zero p1 p2 by (simp add: s1 s2)
qed

lemma buildInitiator_failed_resolution:
  assumes "snd (createSteps h cfg rootFile languageId recipeName b) = None"
  shows "buildInitiator h cfg outcome rootFile languageId recipeName b =
           Inr (emit [Log ''Invalid toolchain.''] (fst (createSteps h cfg rootFile languageId recipeName b)))"
    and "releases (final (buildInitiator h cfg outcome rootFile languageId recipeName b)) = releases b"
    and "filter isSpawn (trace (final (buildInitiator h cfg outcome rootFile languageId recipeName b)))
           = filter isSpawn (trace b)"
proof -
  obtain b1 where cs: "createSteps h cfg rootFile languageId recipeName b = (b1, None)"
    using assms by (cases "createSteps h cfg rootFile languageId recipeName b") auto
  have rs: "reportedSince b b1"
    using createSteps_reports [of b h cfg rootFile languageId recipeName] cs by simp
  show "buildInitiator h cfg outcome rootFile languageId recipeName b =
           Inr (emit [Log ''Invalid toolchain.''] (fst (createSteps h cfg rootFile languageId recipeName b)))"
    by (simp add: buildInitiator_def cs)
  show "releases (final (buildInitiator h cfg outcome rootFile languageId recipeName b)) = releases b"
    using reportedSince_counters(2) [OF rs] by (simp add: buildInitiator_def cs)
  show "filter isSpawn (trace (final (buildInitiator h cfg outcome rootFile languageId recipeName b)))
           = filter isSpawn (trace b)"
    using reportedSince_counters(3) [OF rs] by (simp add: buildInitiator_def cs isSpawn_def)
qed

text \<open>
  C1. When the step resolution fails, the build attempt ends with the error reported by
  notification and log and without a spawned process, but \<^verbatim>\<open>buildInitiator\<close> returns at
  line 181 without calling the release callback it was given: the build mutex acquired
  for the request stays held. Here no recipes are defined; the trace of the whole
  attempt has no release.
\<close>

theorem failed_resolution_keeps_lock:
  "build (host_with ''text'') (config_with [] [] ''first'') always_succeeds
      ''/project/main.tex'' ''latex'' None new_builder =
     Inr (new_builder\<lparr>trace :=
            [Status ''sync~spin'' [], Log ''Build root file /project/main.tex'',
             Log ''outDir: /project'', Log ''No recipes defined.'',
             ShowError ''No recipes defined.'', Log ''Invalid toolchain.'']\<rparr>)
   \<and> releases (final (build (host_with ''text'') (config_with [] [] ''first'') always_succeeds
      ''/project/main.tex'' ''latex'' None new_builder)) = 0"
  by code_simp

lemma buildFinished_releases:
  "buildFinished h cfg rootFile b = Inr b' \<Longrightarrow> releases b' = releases b"
  "buildFinished h cfg rootFile b = Inl (e, b') \<Longrightarrow> releases b' = releases b"
  "\<not> postBuildFails h \<Longrightarrow> \<exists>b'. buildFinished h cfg rootFile b = Inr b'"
  by (auto simp: buildFinished_def Let_def split: if_splits)

lemma externalExit_releases:
  "exitCode = Some 0 \<Longrightarrow> \<not> postBuildFails h \<Longrightarrow>
     releases (externalExit h cfg rootFile exitCode b) = releases b + 2"
  "exitCode \<noteq> Some 0 \<Longrightarrow> releases (externalExit h cfg rootFile exitCode b) = releases b + 1"
  "exitCode = Some 0 \<Longrightarrow> postBuildFails h \<Longrightarrow> rootFile = None \<or> \<not> isLaTeXmkSkipped h \<Longrightarrow>
     releases (externalExit h cfg rootFile exitCode b) = releases b + 1"
  by (auto simp: externalExit_def Let_def releaseBuildMutex_def buildFinished_def
        split: option.splits sum.splits if_splits)

lemma externalExit_trace:
  assumes "\<not> postBuildFails h"
  shows "\<exists>es. trace (externalExit h cfg rootFile (Some 0) b) = es @ [ReleaseBuildMutex, ReleaseBuildMutex]"
proof (cases rootFile)
  case None
  then show ?thesis
    using assms by (simp add: externalExit_def Let_def releaseBuildMutex_def)
next
  case (Some rf)
  obtain b' where "buildFinished h cfg rf
      (emit [Log ''Successfully built.'', Status ''check'' ''Build succeeded.''] (emit [ParseCompilerLog] b)) = Inr b'"
    using buildFinished_releases(3) [OF assms] by blast
  then show ?thesis
    using Some by (simp add: externalExit_def Let_def releaseBuildMutex_def)
qed

lemma releases_externalSpawn [simp]:
  "releases (externalSpawn h cmd arguments pwd rootFile b) = releases b"
  by (simp add: externalSpawn_def Let_def split del: if_split)

text \<open>
  C8. When the external command exits with code 0 and the notifications after the build
  return normally, the release callback acquired for the request is called twice: the two
  last events of the attempt are the call in the \<^verbatim>\<open>finally\<close> of line 169 and the
  unconditional call of line 173. On a non-zero exit code it is called once.
\<close>

theorem external_command_releases_twice:
  "(outcome (spawned b) = ProcExit (Some 0) signal \<and> \<not> postBuildFails h \<longrightarrow>
      releases (buildWithExternalCommand h cfg outcome cmd arguments pwd rootFile b) = releases b + 2
      \<and> (\<exists>es. trace (buildWithExternalCommand h cfg outcome cmd arguments pwd rootFile b)
                 = es @ [ReleaseBuildMutex, ReleaseBuildMutex]))
   \<and> (outcome (spawned b) = ProcExit exitCode signal \<and> exitCode \<noteq> Some 0 \<longrightarrow>
      releases (buildWithExternalCommand h cfg outcome cmd arguments pwd rootFile b) = releases b + 1)"
proof (intro conjI impI)
  let ?b2 = "externalSpawn h cmd arguments pwd rootFile b"
  assume a: "outcome (spawned b) = ProcExit (Some 0) signal \<and> \<not> postBuildFails h"
  then have run: "buildWithExternalCommand h cfg outcome cmd arguments pwd rootFile b
                = externalExit h cfg rootFile (Some 0) ?b2"
    by (simp add: buildWithExternalCommand_def)
  show "releases (buildWithExternalCommand h cfg outcome cmd arguments pwd rootFile b) = releases b + 2"
    using a externalExit_releases(1) [of "Some 0" h cfg rootFile ?b2] by (simp add: run)
  show "\<exists>es. trace (buildWithExternalCommand h cfg outcome cmd arguments pwd rootFile b)
                 = es @ [ReleaseBuildMutex, ReleaseBuildMutex]"
    using a externalExit_trace [of h cfg rootFile ?b2] by (simp add: run)
next
  let ?b2 = "externalSpawn h cmd arguments pwd rootFile b"
  assume a: "outcome (spawned b) = ProcExit exitCode signal \<and> exitCode \<noteq> Some 0"
  then have run: "buildWithExternalCommand h cfg outcome cmd arguments pwd rootFile b
                = externalExit h cfg rootFile exitCode ?b2"
    by (simp add: buildWithExternalCommand_def)
  show "releases (buildWithExternalCommand h cfg outcome cmd arguments pwd rootFile b) = releases b + 1"
    using a externalExit_releases(2) [of exitCode h cfg rootFile ?b2] by (simp add: run)
qed

theorem external_command_releases_twice_witness:
  "releases (buildWithExternalCommand (host_with ''text'') (config_with [] [] ''first'') always_succeeds
               ''make'' [''pdf''] ''/project'' None new_builder) = 2
   \<and> releases (buildWithExternalCommand (host_with ''text'') (config_with [] [] ''first'') always_fails
               ''make'' [''pdf''] ''/project'' None new_builder) = 1"
proof -
  have ok: "always_succeeds (spawned new_builder) = ProcExit (Some 0) None \<and>
            \<not> postBuildFails (host_with ''text'')"
    by (simp add: always_succeeds_def host_with_def)
  have ko: "always_fails (spawned new_builder) = ProcExit (Some 1) None \<and> Some (1::int) \<noteq> Some 0"
    by (simp add: always_fails_def)
  have zero: "releases new_builder = 0" by (simp add: releases_def new_builder_def)
  from external_command_releases_twice
         [of always_succeeds new_builder None "host_with ''text''" "config_with [] [] ''first''"
             "''make''" "[''pdf'']" "''/project''" None, THEN conjunct1, rule_format, OF ok]
       external_command_releases_twice
         [of always_fails new_builder None "host_with ''text''" "config_with [] [] ''first''"
             "''make''" "[''pdf'']" "''/project''" None "Some 1", THEN conjunct2, rule_format, OF ko]
  show ?thesis by (simp add: zero)
qed

section \<open>Properties of the admission\<close>

lemma mutex_simps [simp]:
  "newMutex = 1" "grantable count = (count > 0)" "acquire count = count - 1"
  "release count = count + 1" "releaseAgain count = count"
  by (simp_all add: newMutex_def grantable_def acquire_def release_def releaseAgain_def)

lemma move_fields [simp]:
  "gate (move r st s) = gate s"
  "stage_of (move r st s) r' = (if r' = r then st else stage_of s r')"
  by (simp_all add: move_def)

lemma holders_move [simp]:
  "waitingHolders (move r st s) =
     (if holdsWaiting st then insert r (waitingHolders s) else waitingHolders s - {r})"
  "buildHolders (move r st s) =
     (if holdsBuild st then insert r (buildHolders s) else buildHolders s - {r})"
  by (auto simp: waitingHolders_def buildHolders_def)

lemma holders_gate [simp]:
  "waitingHolders (s\<lparr>gate := g\<rparr>) = waitingHolders s"
  "buildHolders (s\<lparr>gate := g\<rparr>) = buildHolders s"
  by (simp_all add: waitingHolders_def buildHolders_def)

lemma holders_stage:
  "r \<in> waitingHolders s \<longleftrightarrow> holdsWaiting (stage_of s r)"
  "r \<in> buildHolders s \<longleftrightarrow> holdsBuild (stage_of s r)"
  by (simp_all add: waitingHolders_def buildHolders_def)

lemma holds_simps [simp]:
  "\<not> holdsWaiting NotArrived" "\<not> holdsWaiting Rejected" "\<not> holdsWaiting SavingAll"
  "\<not> holdsWaiting AwaitingWaitingMutex" "holdsWaiting AwaitingBuildMutex"
  "holdsWaiting GrantedBuildMutex" "\<not> holdsWaiting Building" "\<not> holdsWaiting Released"
  "\<not> holdsBuild NotArrived" "\<not> holdsBuild Rejected" "\<not> holdsBuild SavingAll"
  "\<not> holdsBuild AwaitingWaitingMutex" "\<not> holdsBuild AwaitingBuildMutex"
  "holdsBuild GrantedBuildMutex" "holdsBuild Building" "\<not> holdsBuild Released"
  by (simp_all add: holdsWaiting_def holdsBuild_def)

lemma not_holder:
  "\<not> holdsWaiting (stage_of s r) \<Longrightarrow> waitingHolders s - {r} = waitingHolders s"
  "\<not> holdsBuild (stage_of s r) \<Longrightarrow> buildHolders s - {r} = buildHolders s"
  by (auto simp: holders_stage)

lemma is_holder:
  "holdsWaiting (stage_of s r) \<Longrightarrow> insert r (waitingHolders s) = waitingHolders s"
  "holdsBuild (stage_of s r) \<Longrightarrow> insert r (buildHolders s) = buildHolders s"
  by (auto simp: holders_stage)

lemma initial_consistent: "mutexes_consistent initial"
  by (simp add: mutexes_consistent_def initial_def waitingHolders_def buildHolders_def)

lemma perform_consistent:
  assumes inv: "mutexes_consistent s" and step: "perform a s = Some s'"
  shows "mutexes_consistent s'"
proof (cases a)
  case (Arrive r)
  with step have st: "stage_of s r = NotArrived"
    and s': "s' = move r Rejected s \<or> s' = move r SavingAll s"
    by (auto split: if_splits)
  from st have "waitingHolders s - {r} = waitingHolders s" "buildHolders s - {r} = buildHolders s"
    by (simp_all add: not_holder)
  with s' inv show ?thesis
    by (auto simp: mutexes_consistent_def)
next
  case (SaveAllDone r)
  with step have st: "stage_of s r = SavingAll" and s': "s' = move r AwaitingWaitingMutex s"
    by (auto split: if_splits)
  from st have "waitingHolders s - {r} = waitingHolders s" "buildHolders s - {r} = buildHolders s"
    by (simp_all add: not_holder)
  with s' inv show ?thesis
    by (simp add: mutexes_consistent_def)
next
  case (GrantWaiting r)
  with step have st: "stage_of s r = AwaitingWaitingMutex"
    and pos: "waitingForBuildToFinishMutex (gate s) > 0"
    and s': "s' = move r AwaitingBuildMutex
                   (s\<lparr>gate := (gate s)\<lparr>waitingForBuildToFinishMutex :=
                                           waitingForBuildToFinishMutex (gate s) - 1\<rparr>\<rparr>)"
    by (auto split: if_splits)
  from inv pos have free: "waitingHolders s = {}" "waitingForBuildToFinishMutex (gate s) = 1"
    by (auto simp: mutexes_consistent_def)
  from st have nb: "buildHolders s - {r} = buildHolders s" by (simp add: not_holder)
  show ?thesis
    using inv free nb by (simp add: s' mutexes_consistent_def)
next
  case (GrantBuild r)
  with step have st: "stage_of s r = AwaitingBuildMutex"
    and pos: "buildMutex (gate s) > 0"
    and s': "s' = move r GrantedBuildMutex (s\<lparr>gate := (gate s)\<lparr>buildMutex := buildMutex (gate s) - 1\<rparr>\<rparr>)"
    by (auto split: if_splits)
  from inv pos have free: "buildHolders s = {}" "buildMutex (gate s) = 1"
    by (auto simp: mutexes_consistent_def)
  from st have w: "insert r (waitingHolders s) = waitingHolders s" by (simp add: is_holder)
  show ?thesis
    using inv free w by (simp add: s' mutexes_consistent_def)
next
  case (Resume r)
  with step have st: "stage_of s r = GrantedBuildMutex"
    and s': "s' = move r Building
                   (s\<lparr>gate := (gate s)\<lparr>waitingForBuildToFinishMutex :=
                                           waitingForBuildToFinishMutex (gate s) + 1\<rparr>\<rparr>)"
    by (auto split: if_splits)
  from st have rw: "r \<in> waitingHolders s" and rb: "insert r (buildHolders s) = buildHolders s"
    by (simp_all add: holders_stage is_holder)
  from inv rw have held: "waitingHolders s = {r}" "waitingForBuildToFinishMutex (gate s) = 0"
    by (auto simp: mutexes_consistent_def)
  show ?thesis
    using inv held rb by (simp add: s' mutexes_consistent_def)
next
  case (Release r)
  with step have st: "stage_of s r = Building"
    and s': "s' = move r Released (s\<lparr>gate := (gate s)\<lparr>buildMutex := buildMutex (gate s) + 1\<rparr>\<rparr>)"
    by (auto split: if_splits)
  from st have rb: "r \<in> buildHolders s" and rw: "waitingHolders s - {r} = waitingHolders s"
    by (simp_all add: holders_stage not_holder)
  from inv rb have held: "buildHolders s = {r}" "buildMutex (gate s) = 0"
    by (auto simp: mutexes_consistent_def)
  show ?thesis
    using inv held rw by (simp add: s' mutexes_consistent_def)
next
  case (ReleaseAgain r)
  with step have s': "s' = s\<lparr>gate := (gate s)\<lparr>buildMutex := buildMutex (gate s)\<rparr>\<rparr>"
    by (auto split: if_splits)
  show ?thesis
    using inv by (simp add: s' mutexes_consistent_def)
qed

lemma release_again_redundant:
  "stage_of s r = Released \<Longrightarrow> perform (ReleaseAgain r) s = Some s"
  by simp

lemma run_consistent:
  "mutexes_consistent s \<Longrightarrow> run as s = Some s' \<Longrightarrow> mutexes_consistent s'"
proof (induction as arbitrary: s)
  case Nil
  then show ?case by simp
next
  case (Cons a as)
  then obtain s1 where "perform a s = Some s1" "run as s1 = Some s'"
    by (auto split: option.splits)
  with Cons show ?case using perform_consistent by blast
qed

lemma reachable_consistent: "reachable s \<Longrightarrow> mutexes_consistent s"
  using run_consistent [OF initial_consistent] by (auto simp: reachable_def)

lemma rejected_terminal:
  "stage_of s r = Rejected \<Longrightarrow> subject a = r \<Longrightarrow> perform a s = None"
  by (cases a) simp_all

lemma building_persists:
  assumes "perform a s = Some s'" and "stage_of s r = Building" and "a \<noteq> Release r"
  shows "stage_of s' r = Building"
  using assms by (cases a) (auto split: if_splits)

lemma run_building:
  "run as s = Some s' \<Longrightarrow> stage_of s r = Building \<Longrightarrow> Release r \<notin> set as
     \<Longrightarrow> stage_of s' r = Building"
proof (induction as arbitrary: s)
  case Nil
  then show ?case by simp
next
  case (Cons a as)
  then obtain s1 where s1: "perform a s = Some s1" "run as s1 = Some s'"
    by (auto split: option.splits)
  have "stage_of s1 r = Building"
    using building_persists [OF s1(1) Cons.prems(2)] Cons.prems(3) by auto
  then show ?case
    using Cons.IH [OF s1(2)] Cons.prems(3) by simp
qed

lemma run_append_reachable:
  "reachable s \<Longrightarrow> run as s = Some s' \<Longrightarrow> reachable s'"
proof -
  have app: "run (xs @ ys) t = (case run xs t of None \<Rightarrow> None | Some t' \<Rightarrow> run ys t')" for xs ys t
    by (induction xs arbitrary: t) (auto split: option.splits)
  assume "reachable s" and r: "run as s = Some s'"
  then obtain pre where "run pre initial = Some s" by (auto simp: reachable_def)
  then have "run (pre @ as) initial = Some s'" using r by (simp add: app)
  then show "reachable s'" unfolding reachable_def by blast
qed

lemma waits_for_release:
  assumes "reachable s" and "stage_of s r = Building" and "r \<noteq> r'"
      and "run as s = Some s'" and "holdsBuild (stage_of s' r')"
  shows "Release r \<in> set as"
proof (rule ccontr)
  assume "Release r \<notin> set as"
  then have "stage_of s' r = Building"
    using run_building [OF assms(4) assms(2)] by simp
  then have "r \<in> buildHolders s'" "r' \<in> buildHolders s'"
    using assms(5) by (simp_all add: holders_stage)
  moreover have "mutexes_consistent s'"
    using reachable_consistent [OF run_append_reachable [OF assms(1) assms(4)]] .
  ultimately show False
    using assms(3) by (auto simp: mutexes_consistent_def)
qed

text \<open>
  C3. In every state the system can reach: a request that arrives while another request
  holds the waiting mutex and waits for the build mutex is rejected, and from then on no
  event of it can happen, so it is never queued, never granted a mutex and never builds; a
  request that arrives while no request holds the waiting mutex is admitted; an admitted
  request cannot hold the build mutex before the build in progress has called the release
  callback; and the arrival changes the stage of the arriving request only, neither the
  mutexes nor any other request. The states the system can reach include those after a
  build has called its release callback twice, as \<^verbatim>\<open>buildWithExternalCommand\<close> does.
\<close>

theorem admission:
  assumes "reachable s"
  shows "((\<exists>r. stage_of s r = AwaitingBuildMutex) \<and> stage_of s r' = NotArrived \<longrightarrow>
            perform (Arrive r') s = Some (move r' Rejected s)
            \<and> (\<forall>a. subject a = r' \<longrightarrow> perform a (move r' Rejected s) = None))
       \<and> ((\<forall>r. \<not> holdsWaiting (stage_of s r)) \<and> stage_of s r' = NotArrived \<longrightarrow>
            perform (Arrive r') s = Some (move r' SavingAll s))
       \<and> (\<forall>r as s'. stage_of s r = Building \<and> r \<noteq> r' \<and> run as s = Some s'
                     \<and> holdsBuild (stage_of s' r') \<longrightarrow> Release r \<in> set as)
       \<and> (\<forall>st. gate (move r' st s) = gate s
                \<and> (\<forall>r. r \<noteq> r' \<longrightarrow> stage_of (move r' st s) r = stage_of s r))"
proof (intro conjI impI allI)
  note inv = reachable_consistent [OF assms]
  {
    assume a: "(\<exists>r. stage_of s r = AwaitingBuildMutex) \<and> stage_of s r' = NotArrived"
    then obtain r where "stage_of s r = AwaitingBuildMutex" by blast
    then have "r \<in> waitingHolders s" by (simp add: holders_stage)
    with inv have "waitingForBuildToFinishMutex (gate s) = 0"
      by (auto simp: mutexes_consistent_def)
    with a show "perform (Arrive r') s = Some (move r' Rejected s)"
      by (simp add: isWaitingForBuildToFinish_def)
  }
  {
    fix a
    assume "subject a = r'"
    then show "perform a (move r' Rejected s) = None"
      by (intro rejected_terminal) simp_all
  }
  {
    assume a: "(\<forall>r. \<not> holdsWaiting (stage_of s r)) \<and> stage_of s r' = NotArrived"
    then have "waitingHolders s = {}" by (simp add: waitingHolders_def)
    with inv have "waitingForBuildToFinishMutex (gate s) = 1"
      by (auto simp: mutexes_consistent_def)
    with a show "perform (Arrive r') s = Some (move r' SavingAll s)"
      by (simp add: isWaitingForBuildToFinish_def)
  }
  {
    fix r as s'
    assume "stage_of s r = Building \<and> r \<noteq> r' \<and> run as s = Some s' \<and> holdsBuild (stage_of s' r')"
    then show "Release r \<in> set as"
      using waits_for_release [OF assms] by blast
  }
  {
    fix st show "gate (move r' st s) = gate s" by simp
  }
  {
    fix st r assume "r \<noteq> r'"
    then show "stage_of (move r' st s) r = stage_of s r" by simp
  }
qed

lemma reach_building:
  "run [Arrive 0, SaveAllDone 0, GrantWaiting 0, GrantBuild 0, Resume 0] initial = Some system_building"
  by (simp add: initial_def system_building_def move_def isWaitingForBuildToFinish_def)

lemma reach_waiting:
  "run [Arrive 1, SaveAllDone 1, GrantWaiting 1] system_building = Some system_waiting"
  by (simp add: system_building_def system_waiting_def move_def isWaitingForBuildToFinish_def)

lemma reach_released_twice:
  "run [Release 0, ReleaseAgain 0, GrantBuild 1, Resume 1, Arrive 2, SaveAllDone 2, GrantWaiting 2]
       system_waiting = Some system_released_twice"
  by (simp add: system_waiting_def system_released_twice_def move_def isWaitingForBuildToFinish_def
        fun_upd_twist)

theorem admission_witness:
  "perform (Arrive 2) system_waiting = Some (move 2 Rejected system_waiting)
   \<and> perform (Arrive 1) system_building = Some (move 1 SavingAll system_building)
   \<and> run [GrantBuild 1] system_waiting = None
   \<and> run [GrantBuild 2] system_released_twice = None
   \<and> Release 0 \<in> set [Release 0, ReleaseAgain 0, GrantBuild 1, Resume 1]"
proof -
  have rb: "reachable system_building"
    using reach_building unfolding reachable_def by blast
  have rw: "reachable system_waiting"
    by (rule run_append_reachable [OF rb reach_waiting])
  have rt: "reachable system_released_twice"
    by (rule run_append_reachable [OF rw reach_released_twice])
  have h1: "(\<exists>r. stage_of system_waiting r = AwaitingBuildMutex) \<and> stage_of system_waiting 2 = NotArrived"
    by (auto simp: system_waiting_def intro: exI [of _ 1])
  have h2: "(\<forall>r. \<not> holdsWaiting (stage_of system_building r)) \<and> stage_of system_building 1 = NotArrived"
    by (simp add: system_building_def)
  have blocked: "run [GrantBuild 1] system_waiting = None"
  proof (cases "run [GrantBuild 1] system_waiting")
    case None
    then show ?thesis .
  next
    case (Some s')
    then have "holdsBuild (stage_of s' 1)"
      by (auto simp: system_waiting_def split: if_splits option.splits)
    then have "Release 0 \<in> set [GrantBuild 1]"
      using admission [OF rw, of 1, THEN conjunct2, THEN conjunct2, THEN conjunct1, rule_format,
                       of 0 "[GrantBuild 1]" s'] Some
      by (simp add: system_waiting_def)
    then show ?thesis by simp
  qed
  have blocked2: "run [GrantBuild 2] system_released_twice = None"
  proof (cases "run [GrantBuild 2] system_released_twice")
    case None
    then show ?thesis .
  next
    case (Some s')
    then have "holdsBuild (stage_of s' 2)"
      by (auto simp: system_released_twice_def split: if_splits option.splits)
    then have "Release 1 \<in> set [GrantBuild 2]"
      using admission [OF rt, of 2, THEN conjunct2, THEN conjunct2, THEN conjunct1, rule_format,
                       of 1 "[GrantBuild 2]" s'] Some
      by (simp add: system_released_twice_def)
    then show ?thesis by simp
  qed
  have h3: "stage_of system_waiting 0 = Building \<and> (0::nat) \<noteq> 1
            \<and> run [Release 0, ReleaseAgain 0, GrantBuild 1, Resume 1] system_waiting
                = Some (move 1 Building (move 1 GrantedBuildMutex (move 0 Released
                     (system_waiting\<lparr>gate := \<lparr>waitingForBuildToFinishMutex = 1, buildMutex = 0\<rparr>\<rparr>))))
            \<and> holdsBuild (stage_of (move 1 Building (move 1 GrantedBuildMutex (move 0 Released
                     (system_waiting\<lparr>gate := \<lparr>waitingForBuildToFinishMutex = 1, buildMutex = 0\<rparr>\<rparr>)))) 1)"
    by (simp add: system_waiting_def move_def)
  from admission [OF rw, of 2, THEN conjunct1, rule_format, OF h1, THEN conjunct1]
       admission [OF rb, of 1, THEN conjunct2, THEN conjunct1, rule_format, OF h2]
       blocked blocked2
       admission [OF rw, of 1, THEN conjunct2, THEN conjunct2, THEN conjunct1, rule_format, OF h3]
  show ?thesis by simp
qed

end
